theory Spec2Isabelle
  imports Main "HOL-Library.Sublist" "HOL-Library.Code_Target_Nat"
begin

section \<open>JavaScript strings and values\<close>

text \<open>
  A JavaScript string is the list of its UTF-16 code units, each a natural number (below
  \<open>65536\<close> in JavaScript; the model takes any list, so its strings include all of
  JavaScript's). The length, \<^verbatim>\<open>slice\<close> and \<^verbatim>\<open>endsWith\<close> count code units, as the code
  does. \<open>str\<close> embeds an ASCII literal and \<open>cu\<close> an ASCII character.
\<close>

type_synonym jsstring = "nat list"

definition cu :: "char \<Rightarrow> nat" where
  "cu c = of_char c"

definition str :: "string \<Rightarrow> jsstring" where
  "str s = map cu s"

definition TAB :: nat where
  "TAB = 0x09"

text \<open>
  The white space of \<^verbatim>\<open>\s\<close>, of \<^verbatim>\<open>trim\<close> and of \<^verbatim>\<open>parseInt\<close>: the ECMAScript white
  space and line terminator code points (tab, line feed, vertical tab, form feed, carriage
  return, space, U+00A0, U+1680, U+2000 to U+200A, U+2028, U+2029, U+202F, U+205F, U+3000
  and the byte order mark U+FEFF).
\<close>

definition js_space :: "nat \<Rightarrow> bool" where
  "js_space c \<longleftrightarrow>
     c \<in> {0x09, 0x0A, 0x0B, 0x0C, 0x0D, 0x20, 0xA0, 0x1680, 0x2028, 0x2029, 0x202F, 0x205F,
          0x3000, 0xFEFF}
     \<or> (0x2000 \<le> c \<and> c \<le> 0x200A)"

text \<open>\<^verbatim>\<open>s.trim()\<close>\<close>

definition trim :: "jsstring \<Rightarrow> jsstring" where
  "trim s = rev (dropWhile js_space (rev (dropWhile js_space s)))"

text \<open>
  \<^verbatim>\<open>s.toLowerCase()\<close>, on the letters the model covers: \<open>A\<close> to \<open>Z\<close> and the capital
  Latin-1 letters U+00C0 to U+00DE (without the multiplication sign U+00D7) go to the code
  unit 32 above; every other code unit is left as it is. JavaScript lower-cases the
  capital letters beyond U+00FF as well (Latin Extended, Greek, Cyrillic); the model
  agrees with it on strings of code units up to U+00FF.
\<close>

definition lower_unit :: "nat \<Rightarrow> nat" where
  "lower_unit c =
     (if 0x41 \<le> c \<and> c \<le> 0x5A then c + 0x20
      else if 0xC0 \<le> c \<and> c \<le> 0xDE \<and> c \<noteq> 0xD7 then c + 0x20
      else c)"

definition toLowerCase :: "jsstring \<Rightarrow> jsstring" where
  "toLowerCase s = map lower_unit s"

text \<open>\<^verbatim>\<open>s.includes(t)\<close>: \<open>t\<close> occurs in \<open>s\<close> as a contiguous run.\<close>

fun str_includes :: "jsstring \<Rightarrow> jsstring \<Rightarrow> bool" where
  "str_includes [] t \<longleftrightarrow> t = []"
| "str_includes (c # cs) t \<longleftrightarrow> take (length t) (c # cs) = t \<or> str_includes cs t"

text \<open>\<^verbatim>\<open>s.endsWith(t)\<close>\<close>

definition endsWith :: "jsstring \<Rightarrow> jsstring \<Rightarrow> bool" where
  "endsWith s t \<longleftrightarrow> length t \<le> length s \<and> drop (length s - length t) s = t"

text \<open>\<^verbatim>\<open>s.slice(-n)\<close>: the last \<open>n\<close> code units, the whole string when it is shorter.\<close>

definition slice_last :: "nat \<Rightarrow> jsstring \<Rightarrow> jsstring" where
  "slice_last n s = drop (length s - n) s"

text \<open>\<^verbatim>\<open>parts.join(sep)\<close>\<close>

fun join :: "jsstring \<Rightarrow> jsstring list \<Rightarrow> jsstring" where
  "join sep [] = []"
| "join sep [x] = x"
| "join sep (x # y # ys) = x @ sep @ join sep (y # ys)"

text \<open>
  \<^verbatim>\<open>s.split(/\s+/)\<close>: the pieces between the maximal runs of white space; a string
  without white space, the empty one too, is its own single piece.
\<close>

function split_ws :: "jsstring \<Rightarrow> jsstring list" where
  "split_ws s =
     (let tok = takeWhile (\<lambda>c. \<not> js_space c) s;
          rest = dropWhile (\<lambda>c. \<not> js_space c) s
      in if rest = [] then [tok] else tok # split_ws (dropWhile js_space rest))"
  by pat_completeness auto
termination
proof (relation "measure length")
  fix s tok rest
  assume rest: "rest = dropWhile (\<lambda>c. \<not> js_space c) s" and ne: "rest \<noteq> []"
  then have "js_space (hd rest)"
    using hd_dropWhile [of "\<lambda>c. \<not> js_space c" s] by simp
  with ne have "length (dropWhile js_space rest) < length rest"
    by (cases rest) (simp_all add: le_imp_less_Suc length_dropWhile_le)
  also have "length rest \<le> length s"
    using rest by (simp add: length_dropWhile_le)
  finally show "(dropWhile js_space rest, s) \<in> measure length"
    by simp
qed simp

declare split_ws.simps [simp del]

subsection \<open>Numbers\<close>

text \<open>
  The Number values the code meets where it reads a quantity: an integer held exactly, or
  an infinity. (\<^verbatim>\<open>NaN\<close> is the \<open>None\<close> of \<open>parseInt\<close>.)
\<close>

datatype number = Finite int | PlusInfinity | MinusInfinity

text \<open>
  \<^verbatim>\<open>parseInt(s, 10)\<close>: leading white space is skipped, one sign is read, and the longest
  run of decimal digits that follows is the mathematical value; \<open>None\<close> is \<^verbatim>\<open>NaN\<close> (no
  digit there). The result is a Number, a double: a value up to \<open>2^53\<close> is held exactly;
  for a larger one the double is the argument \<open>toDouble\<close>, which gives the integer the
  double holds, or \<open>None\<close> for \<^verbatim>\<open>Infinity\<close> (ECMAScript leaves the digits after the
  20th to the implementation, so the model does not fix this rounding).
\<close>

definition is_digit :: "nat \<Rightarrow> bool" where
  "is_digit c \<longleftrightarrow> 0x30 \<le> c \<and> c \<le> 0x39"

definition digit_val :: "nat \<Rightarrow> nat" where
  "digit_val c = c - 0x30"

definition dec_value :: "jsstring \<Rightarrow> nat" where
  "dec_value z = foldl (\<lambda>n c. 10 * n + digit_val c) 0 z"

definition number_of :: "(nat \<Rightarrow> nat option) \<Rightarrow> bool \<Rightarrow> nat \<Rightarrow> number" where
  "number_of toDouble negative n =
     (case (if n \<le> 2 ^ 53 then Some n else toDouble n) of
        Some m \<Rightarrow> Finite (if negative then - int m else int m)
      | None \<Rightarrow> if negative then MinusInfinity else PlusInfinity)"

definition parseInt :: "(nat \<Rightarrow> nat option) \<Rightarrow> jsstring \<Rightarrow> number option" where
  "parseInt toDouble s =
     (let t = dropWhile js_space s;
          negative = (case t of [] \<Rightarrow> False | c # _ \<Rightarrow> c = cu CHR ''-'');
          u = (case t of [] \<Rightarrow> [] | c # cs \<Rightarrow> if c = cu CHR ''-'' \<or> c = cu CHR ''+'' then cs else t);
          z = takeWhile is_digit u
      in if z = [] then None else Some (number_of toDouble negative (dec_value z)))"

subsection \<open>Truthiness\<close>

text \<open>
  A value that is a string, \<^verbatim>\<open>undefined\<close> or \<^verbatim>\<open>null\<close> is a \<^typ>\<open>jsstring option\<close>;
  it is truthy when it is a non-empty string. \<^verbatim>\<open>a || b\<close> is \<open>a\<close> when \<open>a\<close> is truthy
  and \<open>b\<close> otherwise.
\<close>

definition truthy :: "jsstring option \<Rightarrow> bool" where
  "truthy v \<longleftrightarrow> (case v of None \<Rightarrow> False | Some s \<Rightarrow> s \<noteq> [])"

definition or_else :: "jsstring option \<Rightarrow> jsstring option \<Rightarrow> jsstring option" where
  "or_else a b = (if truthy a then a else b)"

definition or_str :: "jsstring option \<Rightarrow> jsstring \<Rightarrow> jsstring" where
  "or_str a lit = (case a of None \<Rightarrow> lit | Some s \<Rightarrow> if s = [] then lit else s)"

definition or_null :: "jsstring option \<Rightarrow> jsstring option" where
  "or_null a = (if truthy a then a else None)"

section \<open>Tabular parser: delimiter detection\<close>

text \<open>
  \<^verbatim>\<open>function detectDelimiter(firstLine: string): string\<close> (server/routes.ts).
  \<^verbatim>\<open>(firstLine.match(/;/g) || []).length\<close> is the number of semicolons of the line.
\<close>

definition detectDelimiter :: "jsstring \<Rightarrow> jsstring" where
  "detectDelimiter firstLine =
     (if TAB \<in> set firstLine then [TAB]
      else
        let semicolonCount = count_list firstLine (cu CHR '';'');
            commaCount = count_list firstLine (cu CHR '','')
        in if semicolonCount > commaCount then str '';'' else str '','')"

section \<open>The canonical order\<close>

text \<open>
  The table \<^verbatim>\<open>orders\<close> of shared/schema.ts. \<open>insertOrder\<close> is \<^verbatim>\<open>InsertOrder\<close>, the
  columns without the serial \<^verbatim>\<open>id\<close>; \<open>order\<close> is \<^verbatim>\<open>Order\<close>, a stored row, which adds
  it. A nullable text column is a \<^typ>\<open>jsstring option\<close>, \<open>None\<close> for \<^verbatim>\<open>null\<close>. The
  quantity is a Number in the object; the column is a 32-bit integer.
\<close>

record insertOrder =
  platform :: jsstring
  purchaseDate :: jsstring
  orderId :: jsstring
  orderItemId :: jsstring
  email :: "jsstring option"
  phone :: "jsstring option"
  firstName :: jsstring
  lastName :: jsstring
  street :: "jsstring option"
  contactPerson :: "jsstring option"
  city :: "jsstring option"
  postalCode :: "jsstring option"
  country :: "jsstring option"
  sku :: "jsstring option"
  productName :: "jsstring option"
  quantity :: number
  customerType :: jsstring
  shippingCarrier :: "jsstring option"
  trackingNumber :: "jsstring option"
  shippingDate :: "jsstring option"
  status :: jsstring

record order = insertOrder +
  rowId :: nat

text \<open>
  The object a field mapper returns: the keys of \<^verbatim>\<open>InsertOrder\<close> and the two keys
  \<^verbatim>\<open>price\<close> and \<^verbatim>\<open>shippingCost\<close>, for which the table has no column.
\<close>

record mappedOrder = insertOrder +
  price :: "jsstring option"
  shippingCost :: "jsstring option"

section \<open>Raw rows\<close>

text \<open>
  A parsed row is the object csv-parse builds with \<^verbatim>\<open>columns: true\<close>: column name to cell,
  in column order, each name once. \<^verbatim>\<open>r[k]\<close> is \<^verbatim>\<open>undefined\<close> (\<open>None\<close>) for a column the
  row has not.
\<close>

type_synonym row = "(jsstring \<times> jsstring) list"

definition cell :: "row \<Rightarrow> jsstring \<Rightarrow> jsstring option" where
  "cell r k = map_of r k"

text \<open>The umlauts of the eBay export's column names.\<close>

definition ae :: jsstring where
  "ae = [0xE4]"

definition ue :: jsstring where
  "ue = [0xFC]"

section \<open>Format detector\<close>

definition detectPlatform :: "jsstring list \<Rightarrow> jsstring" where
  "detectPlatform headers =
     (let headerStr = toLowerCase (join (str ''|'') headers)
      in if str_includes headerStr (str ''order-item-id'')
            \<or> str_includes headerStr (str ''purchase-date'')
            \<or> str_includes headerStr (str ''buyer-email'')
         then str ''Amazon''
         else if str_includes headerStr (str ''bestellnummer'')
            \<or> str_includes headerStr (str ''verkaufsprotokollnummer'')
            \<or> str_includes headerStr (str ''k'' @ ae @ str ''ufer'')
            \<or> str_includes headerStr (str ''empf'' @ ae @ str ''nger'')
            \<or> str_includes headerStr (str ''angebotstitel'')
            \<or> str_includes headerStr (str ''artikelnummer'')
         then str ''eBay''
         else str ''Amazon'')"

section \<open>Field mapper\<close>

text \<open>
  \<^verbatim>\<open>splitName\<close>: the last white-space separated token is the last name. The first test
  of the source, \<^verbatim>\<open>parts.length === 0\<close>, never holds (\<open>split_ws\<close> returns a piece).
\<close>

definition splitName :: "jsstring \<Rightarrow> jsstring \<times> jsstring" where
  "splitName fullName =
     (let parts = split_ws (trim fullName)
      in if parts = [] \<or> (length parts = 1 \<and> hd parts = []) then ([], [])
         else if length parts = 1 then (hd parts, [])
         else (join (str '' '') (butlast parts), last parts))"

text \<open>
  The normalisers of dates and prices (\<^verbatim>\<open>normalizeDate\<close>, \<^verbatim>\<open>parseEbayDate\<close>,
  \<^verbatim>\<open>parsePrice\<close>) rest on JavaScript's \<^verbatim>\<open>Date\<close>, regular expressions and
  \<^verbatim>\<open>parseFloat\<close>. The mappers take them as arguments, so every property below holds
  for whatever strings they return. \<open>toDouble\<close> is the rounding of \<open>parseInt\<close> above
  \<open>2^53\<close>.
\<close>

record normalisers =
  normalizeDate :: "jsstring \<Rightarrow> jsstring"
  parseEbayDate :: "jsstring \<Rightarrow> jsstring"
  parsePrice :: "jsstring \<Rightarrow> jsstring"
  toDouble :: "nat \<Rightarrow> nat option"

text \<open>\<^verbatim>\<open>parseInt(s, 10) || 1\<close>: \<^verbatim>\<open>NaN\<close> and \<open>0\<close> are falsy.\<close>

definition parseInt_or_1 :: "normalisers \<Rightarrow> jsstring \<Rightarrow> number" where
  "parseInt_or_1 nm s =
     (case parseInt (toDouble nm) s of
        None \<Rightarrow> Finite 1
      | Some q \<Rightarrow> if q = Finite 0 then Finite 1 else q)"

text \<open>\<^verbatim>\<open>parsePrice(s) || null\<close>\<close>

definition price_or_null :: "normalisers \<Rightarrow> jsstring \<Rightarrow> jsstring option" where
  "price_or_null nm s = or_null (Some (parsePrice nm s))"

definition mapAmazonRecord :: "normalisers \<Rightarrow> row \<Rightarrow> mappedOrder" where
  "mapAmazonRecord nm r =
     (let recipientName =
            or_str (or_else (cell r (str ''recipient-name'')) (cell r (str ''buyer-name''))) [];
          (first, lastN) = splitName recipientName;
          contact = trim (or_str (cell r (str ''ship-address-2'')) []);
          custType = (if contact \<noteq> [] then str ''Firma'' else str ''Privat'')
      in \<lparr>platform = str ''Amazon'',
          purchaseDate = normalizeDate nm (or_str (cell r (str ''purchase-date'')) []),
          orderId = or_str (cell r (str ''order-id'')) [],
          orderItemId =
            or_str (or_else (cell r (str ''order-item-id'')) (cell r (str ''order-id''))) [],
          email = Some (or_str (cell r (str ''buyer-email'')) []),
          phone = Some (or_str (cell r (str ''buyer-phone-number'')) []),
          firstName = first,
          lastName = lastN,
          street = Some (or_str (cell r (str ''ship-address-1'')) []),
          contactPerson = or_null (Some contact),
          city = Some (or_str (cell r (str ''ship-city'')) []),
          postalCode = Some (or_str (cell r (str ''ship-postal-code'')) []),
          country = Some (or_str (cell r (str ''ship-country'')) []),
          sku = Some (or_str (cell r (str ''sku'')) []),
          productName = Some (or_str (cell r (str ''product-name'')) []),
          quantity = parseInt_or_1 nm (or_str (cell r (str ''quantity-purchased'')) (str ''1'')),
          customerType = custType,
          shippingCarrier = None,
          trackingNumber = None,
          shippingDate = None,
          status = str ''Offen'',
          price =
            price_or_null nm
              (or_str (or_else (cell r (str ''item-price'')) (cell r (str ''price''))) []),
          shippingCost =
            price_or_null nm
              (or_str (or_else (cell r (str ''shipping-price''))
                               (cell r (str ''shipping-fee''))) [])\<rparr>)"

definition mapEbayRecord :: "normalisers \<Rightarrow> row \<Rightarrow> mappedOrder" where
  "mapEbayRecord nm r =
     (let recipientName =
            or_str (or_else (cell r (str ''Name des Empf'' @ ae @ str ''ngers''))
                            (cell r (str ''Name des K'' @ ae @ str ''ufers''))) [];
          (first, lastN) = splitName recipientName;
          shippingAddress2 =
            trim (or_str (cell r (str ''Adresse 2 des Empf'' @ ae @ str ''ngers'')) []);
          buyerAddress2 = trim (or_str (cell r (str ''Adresse 2 des K'' @ ae @ str ''ufers'')) []);
          contact = or_str (or_else (Some shippingAddress2) (Some buyerAddress2)) [];
          custType = (if contact \<noteq> [] then str ''Firma'' else str ''Privat'');
          ordId = or_str (cell r (str ''Bestellnummer'')) [];
          salesRecordId = or_str (cell r (str ''Verkaufsprotokollnummer'')) [];
          transactionId = or_str (cell r (str ''Transaktionsnummer'')) [];
          lineItemId =
            or_str (or_else (or_else (Some salesRecordId) (Some transactionId)) (Some ordId)) [];
          itemId = (if lineItemId \<noteq> [] then str ''ebay-'' @ lineItemId else []);
          purchaseDateRaw =
            or_str (or_else (cell r (str ''Verkauft am'')) (cell r (str ''Zahlungsdatum''))) []
      in \<lparr>platform = str ''eBay'',
          purchaseDate = parseEbayDate nm purchaseDateRaw,
          orderId = ordId,
          orderItemId = itemId,
          email = Some (or_str (cell r (str ''E-Mail des K'' @ ae @ str ''ufers'')) []),
          phone = Some (or_str (cell r (str ''Telefonnummer des Empf'' @ ae @ str ''ngers'')) []),
          firstName = first,
          lastName = lastN,
          street =
            Some (or_str (or_else (cell r (str ''Adresse 1 des Empf'' @ ae @ str ''ngers''))
                                  (cell r (str ''Adresse 1 des K'' @ ae @ str ''ufers''))) []),
          contactPerson = or_null (Some contact),
          city =
            Some (or_str (or_else (cell r (str ''Versand nach - Ort''))
                                  (cell r (str ''Wohnort des K'' @ ae @ str ''ufers''))) []),
          postalCode =
            Some (or_str (or_else (cell r (str ''Versand nach - PLZ''))
                                  (cell r (str ''PLZ des K'' @ ae @ str ''ufers''))) []),
          country =
            Some (or_str (or_else (cell r (str ''Versand nach - Land''))
                                  (cell r (str ''Land des K'' @ ae @ str ''ufers''))) []),
          sku = Some (or_str (cell r (str ''Bestandseinheit'')) []),
          productName = Some (or_str (cell r (str ''Angebotstitel'')) []),
          quantity =
            parseInt_or_1 nm
              (or_str (or_else (cell r (str ''Anzahl'')) (cell r (str ''Menge''))) (str ''1'')),
          customerType = custType,
          shippingCarrier = or_null (cell r (str ''Versandservice'')),
          trackingNumber = or_null (cell r (str ''Sendungsnummer'')),
          shippingDate = None,
          status = str ''Offen'',
          price =
            price_or_null nm
              (or_str (or_else (cell r (str ''Verkauft f'' @ ue @ str ''r''))
                               (cell r (str ''Gesamtbetrag''))) []),
          shippingCost = price_or_null nm (or_str (cell r (str ''Verpackung und Versand'')) [])\<rparr>)"

subsection \<open>The remote variant\<close>

text \<open>
  \<^verbatim>\<open>AmazonOrder\<close> and \<^verbatim>\<open>AmazonOrderItem\<close>, the objects of the remote order API; an optional
  property is an option, \<open>None\<close> when the object has not got it.
\<close>

record buyerInfo =
  BuyerEmail :: "jsstring option"
  BuyerName :: "jsstring option"

record shippingAddress =
  Name :: "jsstring option"
  AddressLine1 :: "jsstring option"
  AddressLine2 :: "jsstring option"
  City :: "jsstring option"
  StateOrRegion :: "jsstring option"
  PostalCode :: "jsstring option"
  CountryCode :: "jsstring option"
  Phone :: "jsstring option"

record amazonOrder =
  AmazonOrderId :: jsstring
  PurchaseDate :: jsstring
  OrderStatus :: jsstring
  BuyerInfo :: "buyerInfo option"
  ShippingAddress :: "shippingAddress option"

record money =
  Amount :: "jsstring option"
  CurrencyCode :: "jsstring option"

record amazonOrderItem =
  OrderItemId :: jsstring
  SellerSKU :: "jsstring option"
  Title :: "jsstring option"
  QuantityOrdered :: int
  ItemPrice :: "money option"
  ItemTax :: "money option"
  ShippingPrice :: "money option"

text \<open>\<^verbatim>\<open>obj?.prop\<close> and \<^verbatim>\<open>(obj || {}).prop\<close>: \<^verbatim>\<open>undefined\<close> when the object is missing.\<close>

definition opt_prop :: "('a \<Rightarrow> jsstring option) \<Rightarrow> 'a option \<Rightarrow> jsstring option" where
  "opt_prop f obj = (case obj of None \<Rightarrow> None | Some x \<Rightarrow> f x)"

definition mapOrderToSchema :: "amazonOrder \<Rightarrow> amazonOrderItem \<Rightarrow> mappedOrder" where
  "mapOrderToSchema ord item =
     (let addr = ShippingAddress ord;
          recipientName =
            or_str (or_else (opt_prop Name addr) (opt_prop BuyerName (BuyerInfo ord))) [];
          (first, lastN) = splitName recipientName;
          contact = trim (or_str (opt_prop AddressLine2 addr) []);
          custType = (if contact \<noteq> [] then str ''Firma'' else str ''Privat'')
      in \<lparr>platform = str ''Amazon'',
          purchaseDate = or_str (Some (PurchaseDate ord)) [],
          orderId = or_str (Some (AmazonOrderId ord)) [],
          orderItemId = or_str (or_else (Some (OrderItemId item)) (Some (AmazonOrderId ord))) [],
          email = Some (or_str (opt_prop BuyerEmail (BuyerInfo ord)) []),
          phone = Some (or_str (opt_prop Phone addr) []),
          firstName = first,
          lastName = lastN,
          street = Some (or_str (opt_prop AddressLine1 addr) []),
          contactPerson = or_null (Some contact),
          city = Some (or_str (opt_prop City addr) []),
          postalCode = Some (or_str (opt_prop PostalCode addr) []),
          country = Some (or_str (opt_prop CountryCode addr) []),
          sku = Some (or_str (SellerSKU item) []),
          productName = Some (or_str (Title item) []),
          quantity = Finite (if QuantityOrdered item = 0 then 1 else QuantityOrdered item),
          customerType = custType,
          shippingCarrier = None,
          trackingNumber = None,
          shippingDate = None,
          status = str ''Offen'',
          price = or_null (opt_prop Amount (ItemPrice item)),
          shippingCost = or_null (opt_prop Amount (ShippingPrice item))\<rparr>)"

section \<open>Failures\<close>

text \<open>
  What the code throws or answers instead of a result: the terminal error of the retry
  wrapper; the 400 answers of the import routes (\<open>FileUnreadable\<close>, \<open>NoRecords\<close>); the
  404 answer of the PATCH route; and the errors of the table's constraints, which a
  statement that violates one throws (an \<open>orderItemId\<close> another row has, \<^verbatim>\<open>null\<close> for a
  NOT NULL column, a quantity the 32-bit integer column cannot hold). The routes catch
  these and answer 500.
\<close>

datatype failure =
  RateLimitError | FileUnreadable | NoRecords | OrderNotFound
  | UniqueViolation | NotNullViolation | IntegerOutOfRange

section \<open>The order store\<close>

text \<open>
  The table as the list of its rows, and the next value of the serial \<^verbatim>\<open>id\<close>. The
  constraints the model checks are the ones shared/schema.ts declares: \<^verbatim>\<open>unique()\<close> on
  \<^verbatim>\<open>order_item_id\<close>, \<^verbatim>\<open>notNull()\<close>, and the type \<^verbatim>\<open>integer\<close> of \<^verbatim>\<open>quantity\<close>. A
  statement that violates one throws and changes nothing.
\<close>

record db =
  rows :: "order list"
  nextId :: nat


text \<open>A Number the 32-bit integer column holds.\<close>

definition int32 :: "number \<Rightarrow> bool" where
  "int32 q \<longleftrightarrow> (case q of Finite n \<Rightarrow> - (2 ^ 31) \<le> n \<and> n < 2 ^ 31 | _ \<Rightarrow> False)"

text \<open>\<^verbatim>\<open>const [order] = await db.select()...\<close>: the first row selected, if any.\<close>

definition first_row :: "'a list \<Rightarrow> 'a option" where
  "first_row xs = (case xs of [] \<Rightarrow> None | x # _ \<Rightarrow> Some x)"

definition getOrderByItemId :: "jsstring \<Rightarrow> db \<Rightarrow> order option" where
  "getOrderByItemId itemId d = first_row (filter (\<lambda>r. orderItemId r = itemId) (rows d))"




subsection \<open>Updates\<close>

text \<open>
  The object an update is called with (\<^verbatim>\<open>Partial<InsertOrder>\<close>, and the \<^verbatim>\<open>shipper\<close> key
  the manifest import adds): every key is optional, \<open>None\<close> when the object has not got
  it (\<^verbatim>\<open>undefined\<close>). A key that is there holds a value or \<^verbatim>\<open>null\<close> (\<open>Some None\<close>).
\<close>

record orderPatch =
  p_platform :: "jsstring option option"
  p_purchaseDate :: "jsstring option option"
  p_orderId :: "jsstring option option"
  p_orderItemId :: "jsstring option option"
  p_email :: "jsstring option option"
  p_phone :: "jsstring option option"
  p_firstName :: "jsstring option option"
  p_lastName :: "jsstring option option"
  p_street :: "jsstring option option"
  p_contactPerson :: "jsstring option option"
  p_city :: "jsstring option option"
  p_postalCode :: "jsstring option option"
  p_country :: "jsstring option option"
  p_sku :: "jsstring option option"
  p_productName :: "jsstring option option"
  p_quantity :: "number option option"
  p_customerType :: "jsstring option option"
  p_shippingCarrier :: "jsstring option option"
  p_trackingNumber :: "jsstring option option"
  p_shippingDate :: "jsstring option option"
  p_status :: "jsstring option option"
  p_shipper :: "jsstring option option"

text \<open>The object without keys.\<close>

definition no_keys :: orderPatch where
  "no_keys =
     \<lparr>p_platform = None, p_purchaseDate = None, p_orderId = None, p_orderItemId = None,
      p_email = None, p_phone = None, p_firstName = None, p_lastName = None, p_street = None,
      p_contactPerson = None, p_city = None, p_postalCode = None, p_country = None,
      p_sku = None, p_productName = None, p_quantity = None, p_customerType = None,
      p_shippingCarrier = None, p_trackingNumber = None, p_shippingDate = None,
      p_status = None, p_shipper = None\<rparr>"

text \<open>\<^verbatim>\<open>data.k !== undefined ? data.k : current.k\<close>\<close>

definition incoming :: "'a option \<Rightarrow> 'a \<Rightarrow> 'a" where
  "incoming v cur = (case v of None \<Rightarrow> cur | Some x \<Rightarrow> x)"

text \<open>
  The new value of a NOT NULL column: the value of the key when the key is there. (A
  \<^verbatim>\<open>null\<close> there makes the statement throw, see \<open>constraint_violated\<close>.)
\<close>

definition incoming_value :: "'a option option \<Rightarrow> 'a \<Rightarrow> 'a" where
  "incoming_value v cur = (case v of Some (Some x) \<Rightarrow> x | _ \<Rightarrow> cur)"

text \<open>
  \<^verbatim>\<open>db.update(orders).set(updateData)\<close> on one row: each column whose key is there takes
  its value, every other column stays. The key \<open>shipper\<close> has no column and is dropped.
\<close>

definition set_columns :: "orderPatch \<Rightarrow> order \<Rightarrow> order" where
  "set_columns u r =
     r\<lparr>platform := incoming_value (p_platform u) (platform r),
       purchaseDate := incoming_value (p_purchaseDate u) (purchaseDate r),
       orderId := incoming_value (p_orderId u) (orderId r),
       orderItemId := incoming_value (p_orderItemId u) (orderItemId r),
       email := incoming (p_email u) (email r),
       phone := incoming (p_phone u) (phone r),
       firstName := incoming_value (p_firstName u) (firstName r),
       lastName := incoming_value (p_lastName u) (lastName r),
       street := incoming (p_street u) (street r),
       contactPerson := incoming (p_contactPerson u) (contactPerson r),
       city := incoming (p_city u) (city r),
       postalCode := incoming (p_postalCode u) (postalCode r),
       country := incoming (p_country u) (country r),
       sku := incoming (p_sku u) (sku r),
       productName := incoming (p_productName u) (productName r),
       quantity := incoming_value (p_quantity u) (quantity r),
       customerType := incoming_value (p_customerType u) (customerType r),
       shippingCarrier := incoming (p_shippingCarrier u) (shippingCarrier r),
       trackingNumber := incoming (p_trackingNumber u) (trackingNumber r),
       shippingDate := incoming (p_shippingDate u) (shippingDate r),
       status := incoming_value (p_status u) (status r)\<rparr>"

text \<open>A key of a NOT NULL column that holds \<^verbatim>\<open>null\<close>.\<close>

definition null_for_not_null :: "orderPatch \<Rightarrow> bool" where
  "null_for_not_null u \<longleftrightarrow>
     p_platform u = Some None \<or> p_purchaseDate u = Some None \<or> p_orderId u = Some None \<or>
     p_orderItemId u = Some None \<or> p_firstName u = Some None \<or> p_lastName u = Some None \<or>
     p_quantity u = Some None \<or> p_customerType u = Some None \<or> p_status u = Some None"

text \<open>
  The constraint that \<^verbatim>\<open>UPDATE ... SET u WHERE id = i\<close> violates, if any: a quantity out
  of the column's range, a \<^verbatim>\<open>null\<close> for a NOT NULL column, or an \<open>orderItemId\<close> that a row
  of another id has.
\<close>

definition constraint_violated :: "nat \<Rightarrow> orderPatch \<Rightarrow> db \<Rightarrow> failure option" where
  "constraint_violated i u d =
     (if (case p_quantity u of Some (Some q) \<Rightarrow> \<not> int32 q | _ \<Rightarrow> False)
      then Some IntegerOutOfRange
      else if null_for_not_null u then Some NotNullViolation
      else if (case p_orderItemId u of
                 Some (Some k) \<Rightarrow> k \<in> set (map orderItemId (filter (\<lambda>r. rowId r \<noteq> i) (rows d)))
               | _ \<Rightarrow> False)
      then Some UniqueViolation
      else None)"

text \<open>
  \<^verbatim>\<open>DatabaseStorage.updateOrder\<close>. The status is computed from the incoming keys laid over
  the current row and written into \<^verbatim>\<open>updateData\<close>, over a \<^verbatim>\<open>status\<close> key of \<^verbatim>\<open>data\<close>.
  The result is the updated row, \<open>None\<close> (\<^verbatim>\<open>undefined\<close>) when no row has the id, or the
  error the update statement throws, which leaves the table as it was.
\<close>

definition updateOrder ::
  "nat \<Rightarrow> orderPatch \<Rightarrow> db \<Rightarrow> (failure + order option) \<times> db" where
  "updateOrder i data d =
     (case first_row (filter (\<lambda>r. rowId r = i) (rows d)) of
        None \<Rightarrow> (Inr None, d)
      | Some current \<Rightarrow>
          let carrier = incoming (p_shippingCarrier data) (shippingCarrier current);
              tracking = incoming (p_trackingNumber data) (trackingNumber current);
              shipDate = incoming (p_shippingDate data) (shippingDate current);
              updateData =
                (if truthy carrier \<and> truthy tracking \<and> truthy shipDate
                 then data\<lparr>p_status := Some (Some (str ''Versendet''))\<rparr>
                 else data\<lparr>p_status := Some (Some (str ''Offen''))\<rparr>)
          in case constraint_violated i updateData d of
               Some e \<Rightarrow> (Inl e, d)
             | None \<Rightarrow>
                 let rows' =
                       map (\<lambda>r. if rowId r = i then set_columns updateData r else r) (rows d)
                 in (Inr (first_row (filter (\<lambda>r. rowId r = i) rows')), d\<lparr>rows := rows'\<rparr>))"

text \<open>
  \<^verbatim>\<open>app.patch("/api/orders/:id")\<close>, from the parsed id and the request body: the updated
  row, the 404 answer, or the 500 answer with the error caught.
\<close>

definition patchOrder :: "nat \<Rightarrow> orderPatch \<Rightarrow> db \<Rightarrow> (failure + order) \<times> db" where
  "patchOrder i body d =
     (case updateOrder i body d of
        (Inl e, d') \<Rightarrow> (Inl e, d')
      | (Inr None, d') \<Rightarrow> (Inl OrderNotFound, d')
      | (Inr (Some upd), d') \<Rightarrow> (Inr upd, d'))"

section \<open>Tabular parser: the file\<close>

text \<open>\<^verbatim>\<open>content.split("\n")\<close>\<close>

fun split_on :: "nat \<Rightarrow> jsstring \<Rightarrow> jsstring list" where
  "split_on sep [] = [[]]"
| "split_on sep (c # cs) =
     (if c = sep then [] # split_on sep cs
      else (case split_on sep cs of [] \<Rightarrow> [[c]] | x # xs \<Rightarrow> (c # x) # xs))"

text \<open>
  The test of the header search: the trimmed line is not empty and does not consist of
  separators, white space and quotes only (\<^verbatim>\<open>/^[;,\t\s"]*$/\<close>).
\<close>

definition is_header_line :: "jsstring \<Rightarrow> bool" where
  "is_header_line l \<longleftrightarrow>
     (let line = trim l
      in line \<noteq> [] \<and>
         \<not> list_all
             (\<lambda>c. c = cu CHR '';'' \<or> c = cu CHR '','' \<or> c = TAB \<or> js_space c \<or> c = 0x22) line)"

text \<open>The first of the first five lines that passes the test, line 0 when none does.\<close>

definition headerLineIndex :: "jsstring list \<Rightarrow> nat" where
  "headerLineIndex lines =
     (case filter (\<lambda>i. is_header_line (lines ! i)) [0..<min (length lines) 5] of
        [] \<Rightarrow> 0
      | i # _ \<Rightarrow> i)"

text \<open>
  \<^verbatim>\<open>parseFile\<close>. The tokenizer is csv-parse's \<^verbatim>\<open>parse\<close>, an argument here: from the text
  and the delimiter to the rows, \<open>None\<close> when it throws.
\<close>

definition parseFile ::
  "(jsstring \<Rightarrow> jsstring \<Rightarrow> row list option) \<Rightarrow> jsstring \<Rightarrow> failure + (row list \<times> jsstring)" where
  "parseFile csv_parse content =
     (let lines = split_on 0x0A content;
          headerLine = lines ! headerLineIndex lines;
          delimiter = detectDelimiter headerLine;
          contentToProcess = join [0x0A] (drop (headerLineIndex lines) lines)
      in case csv_parse contentToProcess delimiter of
           None \<Rightarrow> Inl FileUnreadable
         | Some records \<Rightarrow>
             Inr (filter (\<lambda>r. length (filter (\<lambda>v. v \<noteq> [] \<and> trim v \<noteq> []) (map snd r)) > 3) records,
                  delimiter))"

section \<open>Import orchestrator\<close>




section \<open>Fuzzy reconciler and the shipping-manifest import\<close>

record shippingReport =
  updated :: nat
  notFound :: "jsstring list"
  fuzzyMatched :: "jsstring list"
  ambiguous :: "jsstring list"

text \<open>
  Modelled from the spec: \<^verbatim>\<open>storage.getAllOrders\<close> and \<^verbatim>\<open>storage.getOrdersByOrderId\<close>, which
  the route calls, are not in the storage source at hand. The spec has them as
  \<^verbatim>\<open>listAll() -> Order[]\<close>, the full existing order set, and as the exact \<^verbatim>\<open>orderId\<close>
  lookup.
\<close>

definition getAllOrders :: "db \<Rightarrow> order list" where
  "getAllOrders d = rows d"

definition getOrdersByOrderId :: "jsstring \<Rightarrow> db \<Rightarrow> order list" where
  "getOrdersByOrderId ref d = filter (\<lambda>r. orderId r = ref) (rows d)"

text \<open>\<^verbatim>\<open>s.replace(/[\s\-\+]/g, "")\<close>\<close>

definition strip_phone :: "jsstring \<Rightarrow> jsstring" where
  "strip_phone s = filter (\<lambda>c. \<not> (js_space c \<or> c = cu CHR ''-'' \<or> c = cu CHR ''+'')) s"

text \<open>
  The three predicates of the candidate filter, on the manifest's hints as the loop has
  prepared them (\<open>csvName\<close> and \<open>csvOrt\<close> trimmed and lower-cased, \<open>csvPhone\<close> trimmed and
  stripped).
\<close>

definition nameMatch :: "jsstring \<Rightarrow> order \<Rightarrow> bool" where
  "nameMatch csvName r \<longleftrightarrow>
     (let fullName = toLowerCase (firstName r @ (str '' '') @ lastName r)
      in csvName \<noteq> [] \<and> fullName = csvName)"

definition phoneMatch :: "jsstring \<Rightarrow> order \<Rightarrow> bool" where
  "phoneMatch csvPhone r \<longleftrightarrow>
     (let orderPhone = strip_phone (or_str (phone r) [])
      in csvPhone \<noteq> [] \<and> orderPhone \<noteq> [] \<and> endsWith orderPhone (slice_last 6 csvPhone)
         \<and> length (slice_last 6 csvPhone) \<ge> 6)"

definition cityMatch :: "jsstring \<Rightarrow> order \<Rightarrow> bool" where
  "cityMatch csvOrt r \<longleftrightarrow>
     (let orderCity = toLowerCase (or_str (city r) [])
      in csvOrt \<noteq> [] \<and> orderCity = csvOrt)"

definition is_candidate :: "jsstring \<Rightarrow> jsstring \<Rightarrow> jsstring \<Rightarrow> order \<Rightarrow> bool" where
  "is_candidate csvName csvPhone csvOrt r \<longleftrightarrow>
     (if nameMatch csvName r \<and> phoneMatch csvPhone r then True
      else if nameMatch csvName r \<and> cityMatch csvOrt r then True
      else if phoneMatch csvPhone r \<and> cityMatch csvOrt r then True
      else False)"

text \<open>The right arrow U+2192 of the match explanation.\<close>

definition arrow :: jsstring where
  "arrow = [0x2192]"

definition explanation :: "jsstring \<Rightarrow> order \<Rightarrow> jsstring" where
  "explanation referenz c =
     referenz @ str '' '' @ arrow @ str '' '' @ orderId c @ str '' ('' @ firstName c @ str '' '' @
       lastName c @ str '')''"

text \<open>
  The resolution of one row: the orders to update and the explanations to record, or
  \<open>None\<close> when the row is ambiguous and the loop goes on to the next row.
\<close>

definition resolve ::
  "order list \<Rightarrow> db \<Rightarrow> jsstring \<Rightarrow> jsstring \<Rightarrow> jsstring \<Rightarrow> jsstring \<Rightarrow>
     (order list \<times> jsstring list) option" where
  "resolve allOrders d referenz csvName csvPhone csvOrt =
     (let matchingOrders = getOrdersByOrderId referenz d
      in if matchingOrders = [] \<and> (csvName \<noteq> [] \<or> csvPhone \<noteq> []) then
           let candidates = filter (is_candidate csvName csvPhone csvOrt) allOrders
           in if length candidates = 1
              then Some (candidates, [explanation referenz (hd candidates)])
              else if length candidates > 1 then None
              else Some (matchingOrders, [])
         else Some (matchingOrders, []))"

text \<open>
  The inner loop: one update and one count for each matching order. An update that throws
  ends the loop, and the route, with its error.
\<close>

fun update_matching ::
  "order list \<Rightarrow> orderPatch \<Rightarrow> nat \<times> db \<Rightarrow> (failure + nat) \<times> db" where
  "update_matching [] u (n, d) = (Inr n, d)"
| "update_matching (ord # rest) u (n, d) =
     (case updateOrder (rowId ord) u d of
        (Inl e, d') \<Rightarrow> (Inl e, d')
      | (Inr res, d') \<Rightarrow> update_matching rest u (n + 1, d'))"

text \<open>One turn of the outer loop; \<open>today\<close> is the date stamp the route takes from the clock.\<close>

definition shipping_row ::
  "jsstring \<Rightarrow> order list \<Rightarrow> row \<Rightarrow> shippingReport \<times> db \<Rightarrow>
     (failure + shippingReport) \<times> db" where
  "shipping_row today allOrders r st =
     (let rep = fst st;
          d = snd st;
          referenz = trim (or_str (cell r (str ''Referenz'')) [])
      in if referenz = [] then (Inr rep, d)
         else
           let trackingNum = trim (or_str (cell r (str ''Paketnummer Lieferant'')) []);
               carrier = trim (or_str (cell r (str ''Lieferant'')) []);
               csvName = toLowerCase (trim (or_str (cell r (str ''Name'')) []));
               csvPhone = strip_phone (trim (or_str (cell r (str ''Tel'')) []));
               csvOrt = toLowerCase (trim (or_str (cell r (str ''Ort'')) []))
           in case resolve allOrders d referenz csvName csvPhone csvOrt of
                None \<Rightarrow> (Inr (rep\<lparr>ambiguous := ambiguous rep @ [referenz]\<rparr>), d)
              | Some (matchingOrders, notes) \<Rightarrow>
                  let rep1 = rep\<lparr>fuzzyMatched := fuzzyMatched rep @ notes\<rparr>
                  in if matchingOrders = []
                     then (Inr (rep1\<lparr>notFound := notFound rep1 @ [referenz]\<rparr>), d)
                     else
                       let u = no_keys\<lparr>p_shippingCarrier := Some (or_null (Some carrier)),
                                       p_trackingNumber := Some (or_null (Some trackingNum)),
                                       p_shippingDate := Some (Some today),
                                       p_shipper := Some (Some (str ''LogoiX''))\<rparr>
                       in case update_matching matchingOrders u (updated rep1, d) of
                            (Inl e, d') \<Rightarrow> (Inl e, d')
                          | (Inr n, d') \<Rightarrow> (Inr (rep1\<lparr>updated := n\<rparr>), d'))"

fun shipping_loop ::
  "jsstring \<Rightarrow> order list \<Rightarrow> row list \<Rightarrow> shippingReport \<times> db \<Rightarrow>
     (failure + shippingReport) \<times> db" where
  "shipping_loop today allOrders [] st = (Inr (fst st), snd st)"
| "shipping_loop today allOrders (r # rs) st =
     (case shipping_row today allOrders r st of
        (Inl e, d') \<Rightarrow> (Inl e, d')
      | (Inr rep', d') \<Rightarrow> shipping_loop today allOrders rs (rep', d'))"

text \<open>The route \<^verbatim>\<open>POST /api/orders/import-shipping\<close> from the parsed rows on.\<close>

definition importShippingRecords ::
  "jsstring \<Rightarrow> row list \<Rightarrow> db \<Rightarrow> (failure + shippingReport) \<times> db" where
  "importShippingRecords today records d =
     (if records = [] then (Inl NoRecords, d)
      else
        let start = \<lparr>updated = 0, notFound = [], fuzzyMatched = [], ambiguous = []\<rparr>;
            allOrders = getAllOrders d
        in shipping_loop today allOrders records (start, d))"

text \<open>\<^verbatim>\<open>content.replace(/="/g, '"')\<close>\<close>

fun unquote_formula :: "jsstring \<Rightarrow> jsstring" where
  "unquote_formula (a # b # cs) =
     (if a = cu CHR ''='' \<and> b = 0x22 then b # unquote_formula cs
      else a # unquote_formula (b # cs))"
| "unquote_formula cs = cs"

definition importShipping ::
  "(jsstring \<Rightarrow> jsstring \<Rightarrow> row list option) \<Rightarrow> jsstring \<Rightarrow> jsstring \<Rightarrow> db \<Rightarrow>
     (failure + shippingReport) \<times> db" where
  "importShipping csv_parse today content d =
     (case parseFile csv_parse (unquote_formula content) of
        Inl e \<Rightarrow> (Inl e, d)
      | Inr (records, delimiter) \<Rightarrow> importShippingRecords today records d)"

section \<open>Remote order client: the retry wrapper\<close>

text \<open>
  The network as the wrapper sees it: \<open>server n\<close> is the response to the \<open>n\<close>-th
  \<^verbatim>\<open>fetch\<close> of the run, and the state counts the fetches made and logs the waits, in
  milliseconds and in order.
\<close>

record response =
  res_status :: nat
  res_body :: jsstring

record net =
  fetched :: nat
  slept :: "nat list"

definition fetch :: "(nat \<Rightarrow> response) \<Rightarrow> net \<Rightarrow> response \<times> net" where
  "fetch server w = (server (fetched w), w\<lparr>fetched := Suc (fetched w)\<rparr>)"

definition sleep :: "nat \<Rightarrow> net \<Rightarrow> net" where
  "sleep ms w = w\<lparr>slept := slept w @ [ms]\<rparr>"

text \<open>The \<^verbatim>\<open>for\<close> loop of \<^verbatim>\<open>fetchWithRetry\<close> from the value \<open>attempt\<close> of its counter on.\<close>

function fetchWithRetry_from ::
  "(nat \<Rightarrow> response) \<Rightarrow> nat \<Rightarrow> nat \<Rightarrow> net \<Rightarrow> (failure + response) \<times> net" where
  "fetchWithRetry_from server maxRetries attempt w =
     (if attempt < maxRetries then
        (case fetch server w of (res, w1) \<Rightarrow>
           if res_status res = 429 then
             (let waitTime = 2 ^ attempt * 2000
              in fetchWithRetry_from server maxRetries (attempt + 1) (sleep waitTime w1))
           else (Inr res, w1))
      else (Inl RateLimitError, w))"
  by pat_completeness auto
termination
  by (relation "measure (\<lambda>(server, maxRetries, attempt, w). maxRetries - attempt)") auto

declare fetchWithRetry_from.simps [simp del]

text \<open>\<^verbatim>\<open>fetchWithRetry(url, options)\<close>, with the default \<^verbatim>\<open>maxRetries = 3\<close> of every call.\<close>

definition fetchWithRetry :: "(nat \<Rightarrow> response) \<Rightarrow> net \<Rightarrow> (failure + response) \<times> net" where
  "fetchWithRetry server w = fetchWithRetry_from server 3 0 w"

text \<open>The waits after \<open>k\<close> rate-limited attempts in a row, the first of them attempt \<open>a\<close>.\<close>

definition backoff :: "nat \<Rightarrow> nat \<Rightarrow> nat list" where
  "backoff a k = map (\<lambda>i. 2 ^ i * 2000) [a..<a + k]"

section \<open>The status rule\<close>

text \<open>
  The rule in the spec's words: the status is \<open>Versendet\<close> if and only if carrier,
  tracking number and shipping date are all non-empty, and \<open>Offen\<close> otherwise. A value is
  non-empty when it is a string other than the empty one, which is \<open>truthy\<close>.
\<close>

definition spec_status :: "jsstring option \<Rightarrow> jsstring option \<Rightarrow> jsstring option \<Rightarrow> jsstring" where
  "spec_status carrier tracking shipDate =
     (if truthy carrier \<and> truthy tracking \<and> truthy shipDate then str ''Versendet''
      else str ''Offen'')"

text \<open>A stored row whose status is the one the rule gives for its own shipping fields.\<close>

definition status_derived :: "order \<Rightarrow> bool" where
  "status_derived r \<longleftrightarrow>
     status r = spec_status (shippingCarrier r) (trackingNumber r) (shippingDate r)"

text \<open>The object \<^verbatim>\<open>updateData\<close> that \<open>updateOrder\<close> writes when \<open>current\<close> is the row found.\<close>

definition updateData_of :: "orderPatch \<Rightarrow> order \<Rightarrow> orderPatch" where
  "updateData_of data current =
     data\<lparr>p_status := Some (Some (spec_status
        (incoming (p_shippingCarrier data) (shippingCarrier current))
        (incoming (p_trackingNumber data) (trackingNumber current))
        (incoming (p_shippingDate data) (shippingDate current))))\<rparr>"

section \<open>Sample data\<close>

text \<open>Concrete inputs at which the theorems below are instantiated.\<close>

definition busy_twice :: "nat \<Rightarrow> response" where
  "busy_twice n =
     (if n < 2 then \<lparr>res_status = 429, res_body = []\<rparr>
      else \<lparr>res_status = 200, res_body = str ''ok''\<rparr>)"

definition always_busy :: "nat \<Rightarrow> response" where
  "always_busy n = \<lparr>res_status = 429, res_body = []\<rparr>"

definition idle :: net where
  "idle = \<lparr>fetched = 0, slept = []\<rparr>"

text \<open>
  Normalisers that leave every string as it is; the rounding above \<open>2^53\<close> is not needed
  for the inputs below and answers \<^verbatim>\<open>Infinity\<close>.
\<close>

definition plain :: normalisers where
  "plain = \<lparr>normalizeDate = id, parseEbayDate = id, parsePrice = id, toDouble = Map.empty\<rparr>"

text \<open>A row written with ASCII literals.\<close>

definition srow :: "(string \<times> string) list \<Rightarrow> row" where
  "srow kvs = map (\<lambda>kv. (str (fst kv), str (snd kv))) kvs"

text \<open>A store of two open orders to the same city.\<close>

definition jane :: order where
  "jane =
     \<lparr>platform = str ''Amazon'', purchaseDate = str ''2024-03-01T00:00:00.000Z'',
      orderId = str ''O-1'', orderItemId = str ''A1-X'', email = Some (str ''jane@example.org''),
      phone = Some (str ''+49 170 1234567''), firstName = str ''Jane'', lastName = str ''Doe'',
      street = Some (str ''Weg 1''), contactPerson = None, city = Some (str ''Berlin''),
      postalCode = Some (str ''10115''), country = Some (str ''DE''), sku = Some (str ''SKU-1''),
      productName = Some (str ''Lamp''), quantity = Finite 1, customerType = str ''Privat'',
      shippingCarrier = None, trackingNumber = None, shippingDate = None,
      status = str ''Offen'', rowId = 1\<rparr>"

definition john :: order where
  "john =
     \<lparr>platform = str ''Amazon'', purchaseDate = str ''2024-03-02T00:00:00.000Z'',
      orderId = str ''O-2'', orderItemId = str ''A2-Y'', email = Some (str ''john@example.org''),
      phone = Some (str ''030 7654321''), firstName = str ''John'', lastName = str ''Roe'',
      street = Some (str ''Weg 2''), contactPerson = None, city = Some (str ''Berlin''),
      postalCode = Some (str ''10117''), country = Some (str ''DE''), sku = Some (str ''SKU-2''),
      productName = Some (str ''Desk''), quantity = Finite 2, customerType = str ''Privat'',
      shippingCarrier = None, trackingNumber = None, shippingDate = None,
      status = str ''Offen'', rowId = 2\<rparr>"

definition shop :: db where
  "shop = \<lparr>rows = [jane, john], nextId = 3\<rparr>"

text \<open>
  Request bodies: one with the three shipping fields, one with the carrier alone, one that
  asks for a status; one that sets the three shipping fields and takes the \<open>orderItemId\<close>
  of the other order; and one that sets the three shipping fields, a quantity above the
  32-bit range and the status \<open>Offen\<close>.
\<close>

definition ship_body :: orderPatch where
  "ship_body =
     no_keys\<lparr>p_shippingCarrier := Some (Some (str ''DHL'')),
       p_trackingNumber := Some (Some (str ''123'')),
       p_shippingDate := Some (Some (str ''2024-01-01''))\<rparr>"

definition carrier_body :: orderPatch where
  "carrier_body = no_keys\<lparr>p_shippingCarrier := Some (Some (str ''DHL''))\<rparr>"

definition status_body :: orderPatch where
  "status_body = no_keys\<lparr>p_status := Some (Some (str ''Versendet''))\<rparr>"

definition taken_id_body :: orderPatch where
  "taken_id_body = ship_body\<lparr>p_orderItemId := Some (Some (str ''A2-Y''))\<rparr>"

definition big_quantity_body :: orderPatch where
  "big_quantity_body =
     ship_body\<lparr>p_quantity := Some (Some (Finite 3000000000)),
       p_status := Some (Some (str ''Offen''))\<rparr>"

text \<open>A tokenizer that answers every text with the same rows.\<close>

definition fixed_rows :: "row list \<Rightarrow> jsstring \<Rightarrow> jsstring \<Rightarrow> row list option" where
  "fixed_rows rs content delimiter = Some rs"

text \<open>
  Manifest rows: two for order \<open>O-1\<close>, and one that names only the city. Their other
  columns make them pass the noise filter.
\<close>

definition manifest_O1 :: row where
  "manifest_O1 =
     srow [(''Referenz'', ''O-1''), (''Lieferant'', ''DHL''), (''Paketnummer Lieferant'', ''123''),
       (''Name'', ''Jane Doe''), (''Tel'', ''''), (''Ort'', ''Berlin'')]"


definition manifest_city :: row where
  "manifest_city =
     srow [(''Referenz'', ''X-9''), (''Lieferant'', ''DHL''), (''Paketnummer Lieferant'', ''555''),
       (''Name'', ''Max Muster''), (''Tel'', ''0151 000111''), (''Ort'', ''Berlin'')]"

definition jane_shipped :: order where
  "jane_shipped =
     jane\<lparr>shippingCarrier := Some (str ''DHL''), trackingNumber := Some (str ''123''),
       shippingDate := Some (str ''2024-01-02''), status := str ''Versendet''\<rparr>"

text \<open>The report the manifest import starts from.\<close>

definition start_report :: shippingReport where
  "start_report = \<lparr>updated = 0, notFound = [], fuzzyMatched = [], ambiguous = []\<rparr>"

text \<open>Orders whose phone numbers are written with a slash.\<close>

definition slash_order :: order where
  "slash_order = jane\<lparr>phone := Some (str ''0170/34567'')\<rparr>"

definition long_slash_order :: order where
  "long_slash_order = jane\<lparr>phone := Some (str ''99/12345'')\<rparr>"



section \<open>Quantities used in the statements\<close>

text \<open>
  The constraint that an update of the row \<open>i\<close> with the keys of \<open>data\<close> violates, if any.
  The \<open>status\<close> key of \<open>data\<close> plays no part in it: the update writes a status of its
  own.
\<close>

definition table_rejects :: "nat \<Rightarrow> orderPatch \<Rightarrow> db \<Rightarrow> failure option" where
  "table_rejects i data d = constraint_violated i (data\<lparr>p_status := Some (Some [])\<rparr>) d"


text \<open>The candidate the import loop maps a row to, for the platform detected.\<close>

definition candidate_of :: "normalisers \<Rightarrow> jsstring \<Rightarrow> row \<Rightarrow> mappedOrder" where
  "candidate_of nm pf r = (if pf = str ''eBay'' then mapEbayRecord nm r else mapAmazonRecord nm r)"

text \<open>The candidates, and the \<open>orderItemId\<close>s, a file's rows are mapped to, in row order.\<close>

definition candidates :: "normalisers \<Rightarrow> row list \<Rightarrow> mappedOrder list" where
  "candidates nm records = map (candidate_of nm (detectPlatform (map fst (hd records)))) records"



section \<open>Delimiter detection: theorems\<close>

text \<open>
  C7. A header line that contains a tab is tab-delimited, whatever commas and semicolons
  it also holds; a header line without a tab is semicolon-delimited when it has more
  semicolons than commas, and comma-delimited otherwise.
\<close>

theorem detectDelimiter_spec:
  "(TAB \<in> set line \<longrightarrow> detectDelimiter line = [TAB]) \<and>
   (TAB \<notin> set line \<longrightarrow>
      detectDelimiter line =
        (if count_list line (cu CHR '';'') > count_list line (cu CHR '','') then str '';''
         else str '',''))"
  by (simp add: detectDelimiter_def Let_def)

theorem detectDelimiter_spec_witness:
  "TAB \<in> set (str ''a,b;c;d'' @ [TAB] @ str ''e'') \<and>
   detectDelimiter (str ''a,b;c;d'' @ [TAB] @ str ''e'') = [TAB] \<and>
   TAB \<notin> set (str ''a;b;c,d'') \<and> detectDelimiter (str ''a;b;c,d'') = str '';'' \<and>
   TAB \<notin> set (str ''a;b,c'') \<and> detectDelimiter (str ''a;b,c'') = str '',''"
  using detectDelimiter_spec [of "str ''a,b;c;d'' @ [TAB] @ str ''e''"]
    detectDelimiter_spec [of "str ''a;b;c,d''"] detectDelimiter_spec [of "str ''a;b,c''"]
  by (simp add: TAB_def str_def cu_def)

section \<open>The retry wrapper: theorems\<close>

lemma backoff_Suc: "backoff a (Suc k) = (2 ^ a * 2000) # backoff (Suc a) k"
  by (simp add: backoff_def upt_conv_Cons)

lemma fetchWithRetry_from_success:
  "a + k < n \<Longrightarrow> \<forall>j<k. res_status (server (fetched w + j)) = 429 \<Longrightarrow>
   res_status (server (fetched w + k)) \<noteq> 429 \<Longrightarrow>
   fetchWithRetry_from server n a w =
     (Inr (server (fetched w + k)),
      w\<lparr>fetched := fetched w + k + 1, slept := slept w @ backoff a k\<rparr>)"
proof (induction k arbitrary: a w)
  case 0
  then show ?case
    by (subst fetchWithRetry_from.simps) (simp add: fetch_def backoff_def)
next
  case (Suc k)
  let ?w = "sleep (2 ^ a * 2000) (w\<lparr>fetched := Suc (fetched w)\<rparr>)"
  have first: "res_status (server (fetched w)) = 429"
    using Suc.prems(2) by (metis add.right_neutral zero_less_Suc)
  have rest: "\<forall>j<k. res_status (server (fetched ?w + j)) = 429"
    using Suc.prems(2) by (auto simp: sleep_def)
  have last: "res_status (server (fetched ?w + k)) \<noteq> 429"
    using Suc.prems(3) by (simp add: sleep_def)
  have "fetchWithRetry_from server n a w = fetchWithRetry_from server n (Suc a) ?w"
    using Suc.prems(1) first
    by (subst fetchWithRetry_from.simps) (simp add: fetch_def)
  also have "\<dots> = (Inr (server (fetched ?w + k)),
      ?w\<lparr>fetched := fetched ?w + k + 1, slept := slept ?w @ backoff (Suc a) k\<rparr>)"
    using Suc.prems(1) by (intro Suc.IH rest last) simp
  finally show ?case
    by (simp add: sleep_def backoff_Suc)
qed

lemma fetchWithRetry_from_exhausted:
  "a + k = n \<Longrightarrow> \<forall>j<k. res_status (server (fetched w + j)) = 429 \<Longrightarrow>
   fetchWithRetry_from server n a w =
     (Inl RateLimitError, w\<lparr>fetched := fetched w + k, slept := slept w @ backoff a k\<rparr>)"
proof (induction k arbitrary: a w)
  case 0
  then show ?case
    by (subst fetchWithRetry_from.simps) (simp add: backoff_def)
next
  case (Suc k)
  let ?w = "sleep (2 ^ a * 2000) (w\<lparr>fetched := Suc (fetched w)\<rparr>)"
  have first: "res_status (server (fetched w)) = 429"
    using Suc.prems(2) by (metis add.right_neutral zero_less_Suc)
  have rest: "\<forall>j<k. res_status (server (fetched ?w + j)) = 429"
    using Suc.prems(2) by (auto simp: sleep_def)
  have "fetchWithRetry_from server n a w = fetchWithRetry_from server n (Suc a) ?w"
    using Suc.prems(1) first
    by (subst fetchWithRetry_from.simps) (simp add: fetch_def)
  also have "\<dots> = (Inl RateLimitError,
      ?w\<lparr>fetched := fetched ?w + k, slept := slept ?w @ backoff (Suc a) k\<rparr>)"
    using Suc.prems(1) by (intro Suc.IH rest) simp
  finally show ?case
    by (simp add: sleep_def backoff_Suc)
qed

text \<open>
  C9. A call through the retry wrapper, started in any state \<open>w\<close> of the network. If the
  first response that is not rate-limited (status other than 429) comes at attempt
  \<open>k < 3\<close>, the call returns that response after exactly \<open>k + 1\<close> fetches, and has waited
  \<open>2000 * 2^i\<close> milliseconds after each rate-limited attempt \<open>i < k\<close>: the wait starts at
  2000 and doubles. If the first three responses are all rate-limited, the call makes
  exactly three fetches, waits 2000, 4000 and 8000 milliseconds, and ends with the
  rate-limit error instead of a response.
\<close>

theorem fetchWithRetry_backoff:
  "(\<forall>k<3. (\<forall>j<k. res_status (server (fetched w + j)) = 429) \<and>
           res_status (server (fetched w + k)) \<noteq> 429 \<longrightarrow>
      fetchWithRetry server w =
        (Inr (server (fetched w + k)),
         w\<lparr>fetched := fetched w + k + 1,
           slept := slept w @ map (\<lambda>i. 2 ^ i * 2000) [0..<k]\<rparr>)) \<and>
   ((\<forall>j<3. res_status (server (fetched w + j)) = 429) \<longrightarrow>
      fetchWithRetry server w =
        (Inl RateLimitError,
         w\<lparr>fetched := fetched w + 3, slept := slept w @ [2000, 4000, 8000]\<rparr>))"
proof (intro conjI allI impI)
  fix k :: nat
  assume "k < 3"
    and "(\<forall>j<k. res_status (server (fetched w + j)) = 429) \<and>
         res_status (server (fetched w + k)) \<noteq> 429"
  then show "fetchWithRetry server w =
        (Inr (server (fetched w + k)),
         w\<lparr>fetched := fetched w + k + 1,
           slept := slept w @ map (\<lambda>i. 2 ^ i * 2000) [0..<k]\<rparr>)"
    using fetchWithRetry_from_success [of 0 k 3 server w]
    by (simp add: fetchWithRetry_def backoff_def)
next
  assume "\<forall>j<3. res_status (server (fetched w + j)) = 429"
  then have "fetchWithRetry server w =
      (Inl RateLimitError, w\<lparr>fetched := fetched w + 3, slept := slept w @ backoff 0 3\<rparr>)"
    using fetchWithRetry_from_exhausted [of 0 3 3 server w]
    by (simp add: fetchWithRetry_def)
  moreover have "backoff 0 3 = [2000, 4000, 8000]"
    by (simp add: backoff_def upt_conv_Cons)
  ultimately show "fetchWithRetry server w =
        (Inl RateLimitError,
         w\<lparr>fetched := fetched w + 3, slept := slept w @ [2000, 4000, 8000]\<rparr>)"
    by simp
qed

theorem fetchWithRetry_backoff_witness:
  "res_status (busy_twice 0) = 429 \<and> res_status (busy_twice 1) = 429 \<and>
   res_status (busy_twice 2) \<noteq> 429 \<and>
   fetchWithRetry busy_twice idle =
     (Inr \<lparr>res_status = 200, res_body = str ''ok''\<rparr>, \<lparr>fetched = 3, slept = [2000, 4000]\<rparr>) \<and>
   res_status (always_busy 0) = 429 \<and> res_status (always_busy 1) = 429 \<and>
   res_status (always_busy 2) = 429 \<and>
   fetchWithRetry always_busy idle =
     (Inl RateLimitError, \<lparr>fetched = 3, slept = [2000, 4000, 8000]\<rparr>)"
  using fetchWithRetry_backoff [of busy_twice idle, THEN conjunct1, THEN spec, of 2]
    fetchWithRetry_backoff [of always_busy idle, THEN conjunct2]
  by (simp add: busy_twice_def always_busy_def idle_def upt_conv_Cons)

section \<open>Field mapper: theorems\<close>

lemma or_null_cases:
  "or_null v = (case v of None \<Rightarrow> None | Some s \<Rightarrow> if s = [] then None else Some s)"
  by (simp add: or_null_def truthy_def split: option.splits)

lemma mapAmazonRecord_shipping:
  "shippingCarrier (mapAmazonRecord nm r) = None"
  "trackingNumber (mapAmazonRecord nm r) = None"
  "shippingDate (mapAmazonRecord nm r) = None"
  "status (mapAmazonRecord nm r) = str ''Offen''"
  by (simp_all add: mapAmazonRecord_def Let_def case_prod_beta)

lemma mapOrderToSchema_shipping:
  "shippingCarrier (mapOrderToSchema ord item) = None"
  "trackingNumber (mapOrderToSchema ord item) = None"
  "shippingDate (mapOrderToSchema ord item) = None"
  "status (mapOrderToSchema ord item) = str ''Offen''"
  by (simp_all add: mapOrderToSchema_def Let_def case_prod_beta)

lemma mapEbayRecord_shipping:
  "shippingCarrier (mapEbayRecord nm r) = or_null (cell r (str ''Versandservice''))"
  "trackingNumber (mapEbayRecord nm r) = or_null (cell r (str ''Sendungsnummer''))"
  "shippingDate (mapEbayRecord nm r) = None"
  "status (mapEbayRecord nm r) = str ''Offen''"
  by (simp_all add: mapEbayRecord_def Let_def case_prod_beta)

lemma mapAmazonRecord_quantity:
  "quantity (mapAmazonRecord nm r) =
     parseInt_or_1 nm (or_str (cell r (str ''quantity-purchased'')) (str ''1''))"
  by (simp add: mapAmazonRecord_def Let_def case_prod_beta)

lemma mapEbayRecord_quantity:
  "quantity (mapEbayRecord nm r) =
     parseInt_or_1 nm
       (or_str (or_else (cell r (str ''Anzahl'')) (cell r (str ''Menge''))) (str ''1''))"
  by (simp add: mapEbayRecord_def Let_def case_prod_beta)

lemma mapOrderToSchema_quantity:
  "quantity (mapOrderToSchema ord item) =
     Finite (if QuantityOrdered item = 0 then 1 else QuantityOrdered item)"
  by (simp add: mapOrderToSchema_def Let_def case_prod_beta)

lemmas parseInt_eval =
  parseInt_def number_of_def is_digit_def dec_value_def digit_val_def js_space_def str_def cu_def

lemma parseInt_or_1_cases:
  "parseInt_or_1 nm s \<noteq> Finite 0"
  "parseInt (toDouble nm) s = None \<Longrightarrow> parseInt_or_1 nm s = Finite 1"
  "parseInt (toDouble nm) s = Some (Finite 0) \<Longrightarrow> parseInt_or_1 nm s = Finite 1"
  "parseInt (toDouble nm) s = Some q \<Longrightarrow> q \<noteq> Finite 0 \<Longrightarrow> parseInt_or_1 nm s = q"
  by (simp_all add: parseInt_or_1_def split: option.splits)

lemma parseInt_or_1_default: "parseInt_or_1 nm (str ''1'') = Finite 1"
  by (simp add: parseInt_or_1_def parseInt_eval)

lemma parseInt_empty: "parseInt td [] = None"
  by (simp add: parseInt_def)

lemma quantity_absent: "\<not> truthy v \<Longrightarrow> parseInt_or_1 nm (or_str v (str ''1'')) = Finite 1"
  using parseInt_or_1_default by (auto simp: truthy_def or_str_def split: option.splits)

lemma quantity_unparseable:
  "v = Some s \<Longrightarrow> parseInt (toDouble nm) s = None \<Longrightarrow>
   parseInt_or_1 nm (or_str v (str ''1'')) = Finite 1"
  using parseInt_or_1_default parseInt_or_1_cases(2) [of nm s] by (auto simp: or_str_def)

lemma quantity_parsed:
  assumes "v = Some s" and "parseInt (toDouble nm) s = Some q"
  shows "parseInt_or_1 nm (or_str v (str ''1'')) = (if q = Finite 0 then Finite 1 else q)"
proof -
  from assms(2) have "s \<noteq> []"
    using parseInt_empty by auto
  with assms show ?thesis
    using parseInt_or_1_cases(3,4) [of nm s] by (simp add: or_str_def)
qed

text \<open>
  What \<open>parseInt\<close> reads from a cell that starts with a run \<open>z\<close> of digits, of a value up to
  \<open>2^53\<close>, after an optional minus sign: the value, with its sign.
\<close>

lemma takeWhile_digits:
  "list_all is_digit z \<Longrightarrow> rest = [] \<or> \<not> is_digit (hd rest) \<Longrightarrow>
   takeWhile is_digit (z @ rest) = z"
  by (cases rest) (simp_all add: list_all_iff takeWhile_append2)

lemma digit_not_space: "is_digit c \<Longrightarrow> \<not> js_space c"
  by (auto simp: is_digit_def js_space_def)

lemma parseInt_digits:
  assumes "z \<noteq> []" and "list_all is_digit z" and "rest = [] \<or> \<not> is_digit (hd rest)"
    and "dec_value z \<le> 2 ^ 53"
  shows "parseInt td (z @ rest) = Some (Finite (int (dec_value z)))"
proof -
  obtain c cs where z: "z = c # cs"
    using assms(1) by (cases z) auto
  with assms(2) have c: "is_digit c"
    by simp
  then have "\<not> js_space c" "c \<noteq> cu CHR ''-''" "c \<noteq> cu CHR ''+''"
    by (auto simp: digit_not_space is_digit_def cu_def)
  then have "parseInt td (z @ rest) =
      (let zz = takeWhile is_digit (z @ rest)
       in if zz = [] then None else Some (number_of td False (dec_value zz)))"
    by (simp add: parseInt_def z Let_def)
  also have "takeWhile is_digit (z @ rest) = z"
    using assms(2,3) by (rule takeWhile_digits)
  finally show ?thesis
    using assms(1,4) by (simp add: number_of_def)
qed

lemma parseInt_minus_digits:
  assumes "z \<noteq> []" and "list_all is_digit z" and "rest = [] \<or> \<not> is_digit (hd rest)"
    and "dec_value z \<le> 2 ^ 53"
  shows "parseInt td (cu CHR ''-'' # z @ rest) = Some (Finite (- int (dec_value z)))"
proof -
  have "\<not> js_space (cu CHR ''-'')"
    by (simp add: js_space_def cu_def)
  then have "parseInt td (cu CHR ''-'' # z @ rest) =
      (let zz = takeWhile is_digit (z @ rest)
       in if zz = [] then None else Some (number_of td True (dec_value zz)))"
    by (simp add: parseInt_def Let_def)
  also have "takeWhile is_digit (z @ rest) = z"
    using assms(2,3) by (rule takeWhile_digits)
  finally show ?thesis
    using assms(1,4) by (simp add: number_of_def)
qed

text \<open>
  C3, as the code has it. The Amazon mapper and the remote mapper leave
  \<open>shippingCarrier\<close>, \<open>trackingNumber\<close> and \<open>shippingDate\<close> null and set the status
  \<open>Offen\<close>, for every row. The eBay mapper sets the status \<open>Offen\<close> and leaves
  \<open>shippingDate\<close> null too, but it takes \<open>shippingCarrier\<close> from the column
  \<open>Versandservice\<close> and \<open>trackingNumber\<close> from the column \<open>Sendungsnummer\<close>: each is
  null only when its column is absent or empty.
\<close>

theorem mappers_shipping_fields:
  "shippingCarrier (mapAmazonRecord nm r) = None \<and>
   trackingNumber (mapAmazonRecord nm r) = None \<and>
   shippingDate (mapAmazonRecord nm r) = None \<and>
   status (mapAmazonRecord nm r) = str ''Offen'' \<and>
   shippingCarrier (mapOrderToSchema ord item) = None \<and>
   trackingNumber (mapOrderToSchema ord item) = None \<and>
   shippingDate (mapOrderToSchema ord item) = None \<and>
   status (mapOrderToSchema ord item) = str ''Offen'' \<and>
   shippingCarrier (mapEbayRecord nm r) =
     (case cell r (str ''Versandservice'') of
        None \<Rightarrow> None
      | Some s \<Rightarrow> if s = [] then None else Some s) \<and>
   trackingNumber (mapEbayRecord nm r) =
     (case cell r (str ''Sendungsnummer'') of
        None \<Rightarrow> None
      | Some s \<Rightarrow> if s = [] then None else Some s) \<and>
   shippingDate (mapEbayRecord nm r) = None \<and>
   status (mapEbayRecord nm r) = str ''Offen''"
  unfolding or_null_cases [symmetric]
  by (simp only: mapAmazonRecord_shipping mapOrderToSchema_shipping mapEbayRecord_shipping
      simp_thms)

theorem mappers_shipping_fields_witness:
  "shippingCarrier (mapAmazonRecord plain (srow [(''order-item-id'', ''A1-X'')])) = None \<and>
   status (mapAmazonRecord plain (srow [(''order-item-id'', ''A1-X'')])) = str ''Offen'' \<and>
   shippingCarrier (mapEbayRecord plain (srow [(''Versandservice'', ''DHL'')])) =
     Some (str ''DHL'') \<and>
   trackingNumber (mapEbayRecord plain (srow [(''Versandservice'', ''DHL'')])) = None \<and>
   status (mapEbayRecord plain (srow [(''Versandservice'', ''DHL'')])) = str ''Offen''"
  using mappers_shipping_fields [of plain "srow [(''order-item-id'', ''A1-X'')]"]
    mappers_shipping_fields [of plain "srow [(''Versandservice'', ''DHL'')]"]
  by (simp add: cell_def srow_def str_def cu_def)

text \<open>
  C3 as stated fails: an eBay row with a shipping service and a parcel number is mapped
  to a candidate that carries both.
\<close>

theorem mapEbayRecord_shipping_counterexample:
  "shippingCarrier (mapEbayRecord plain
      (srow [(''Verkaufsprotokollnummer'', ''77''), (''Versandservice'', ''DHL''),
       (''Sendungsnummer'', ''JJD01'')])) = Some (str ''DHL'') \<and>
   trackingNumber (mapEbayRecord plain
      (srow [(''Verkaufsprotokollnummer'', ''77''), (''Versandservice'', ''DHL''),
       (''Sendungsnummer'', ''JJD01'')])) = Some (str ''JJD01'')"
  by (simp add: mapEbayRecord_shipping cell_def or_null_def truthy_def srow_def str_def cu_def)

text \<open>
  C8, as the code has it. The quantity of a mapped candidate is a Number other than zero.
  For the file mappers (the quantity cell is \<open>quantity-purchased\<close>; for eBay \<open>Anzahl\<close>,
  else \<open>Menge\<close>): it is 1 when the cell is absent or empty, when \<open>parseInt\<close> finds no
  integer at its start, and when the integer found is 0; otherwise it is the Number
  \<open>parseInt\<close> returns. For a cell that starts with digits of a value from 1 to \<open>2^53\<close>
  that Number is the value itself, and with a minus sign before the digits it is the
  negative value: nothing raises a quantity below 1. For the remote mapper it is
  \<open>QuantityOrdered\<close>, or 1 when that is 0.
\<close>

theorem mapped_quantity:
  "quantity (mapAmazonRecord nm r) \<noteq> Finite 0 \<and>
   quantity (mapEbayRecord nm r) \<noteq> Finite 0 \<and>
   quantity (mapOrderToSchema ord item) \<noteq> Finite 0 \<and>
   quantity (mapAmazonRecord nm r) =
     (case cell r (str ''quantity-purchased'') of
        None \<Rightarrow> Finite 1
      | Some s \<Rightarrow>
          (case parseInt (toDouble nm) s of
             None \<Rightarrow> Finite 1
           | Some q \<Rightarrow> if q = Finite 0 then Finite 1 else q)) \<and>
   quantity (mapEbayRecord nm r) =
     (case or_else (cell r (str ''Anzahl'')) (cell r (str ''Menge'')) of
        None \<Rightarrow> Finite 1
      | Some s \<Rightarrow>
          (case parseInt (toDouble nm) s of
             None \<Rightarrow> Finite 1
           | Some q \<Rightarrow> if q = Finite 0 then Finite 1 else q)) \<and>
   quantity (mapOrderToSchema ord item) =
     Finite (if QuantityOrdered item = 0 then 1 else QuantityOrdered item) \<and>
   parseInt (toDouble nm) [] = None \<and>
   (\<forall>z rest. z \<noteq> [] \<and> list_all is_digit z \<and> (rest = [] \<or> \<not> is_digit (hd rest)) \<and>
        dec_value z \<le> 2 ^ 53 \<longrightarrow>
      parseInt (toDouble nm) (z @ rest) = Some (Finite (int (dec_value z))) \<and>
      parseInt (toDouble nm) (cu CHR ''-'' # z @ rest) = Some (Finite (- int (dec_value z))))"
proof -
  have num: "parseInt_or_1 nm (or_str v (str ''1'')) =
      (case v of
         None \<Rightarrow> Finite 1
       | Some s \<Rightarrow>
           (case parseInt (toDouble nm) s of
              None \<Rightarrow> Finite 1
            | Some q \<Rightarrow> if q = Finite 0 then Finite 1 else q))" for v
  proof (cases v)
    case None
    then show ?thesis
      using quantity_absent [of v nm] by (simp add: truthy_def)
  next
    case (Some s)
    show ?thesis
    proof (cases "parseInt (toDouble nm) s")
      case None
      with Some show ?thesis
        using quantity_unparseable [of v s nm] by simp
    next
      case (Some q)
      with \<open>v = Some s\<close> show ?thesis
        using quantity_parsed [of v s nm q] by simp
    qed
  qed
  show ?thesis
    unfolding mapAmazonRecord_quantity mapEbayRecord_quantity mapOrderToSchema_quantity num
    using parseInt_or_1_cases(1) [of nm] parseInt_empty parseInt_digits parseInt_minus_digits
    by (auto split: option.splits)
qed

theorem mapped_quantity_witness:
  "quantity (mapAmazonRecord plain (srow [(''order-item-id'', ''A1-X'')])) = Finite 1 \<and>
   quantity (mapAmazonRecord plain (srow [(''quantity-purchased'', ''n/a'')])) = Finite 1 \<and>
   quantity (mapAmazonRecord plain (srow [(''quantity-purchased'', ''0'')])) = Finite 1 \<and>
   quantity (mapAmazonRecord plain (srow [(''quantity-purchased'', ''-5'')])) = Finite (- 5) \<and>
   quantity (mapEbayRecord plain (srow [(''Anzahl'', ''''), (''Menge'', ''3 St.'')])) = Finite 3"
proof -
  have p1: "parseInt (toDouble plain) (str ''n/a'') = None"
    and p0: "parseInt (toDouble plain) (str ''0'') = Some (Finite 0)"
    and p3: "parseInt (toDouble plain) (str ''3 St.'') = Some (Finite 3)"
    by (simp_all add: parseInt_eval)
  have five: "str ''5'' \<noteq> [] \<and> list_all is_digit (str ''5'') \<and> dec_value (str ''5'') = 5"
    by (simp add: is_digit_def dec_value_def digit_val_def str_def cu_def)
  have p5: "parseInt (toDouble plain) (str ''-5'') = Some (Finite (- 5))"
    using mapped_quantity [of plain "[]", THEN conjunct2, THEN conjunct2, THEN conjunct2,
        THEN conjunct2, THEN conjunct2, THEN conjunct2, THEN conjunct2, THEN spec,
        THEN spec, of "str ''5''" "[]"] five
    by (simp add: str_def)
  show ?thesis
    using mapped_quantity [of plain "srow [(''order-item-id'', ''A1-X'')]"]
      mapped_quantity [of plain "srow [(''quantity-purchased'', ''n/a'')]"]
      mapped_quantity [of plain "srow [(''quantity-purchased'', ''0'')]"]
      mapped_quantity [of plain "srow [(''quantity-purchased'', ''-5'')]"]
      mapped_quantity [of plain "srow [(''Anzahl'', ''''), (''Menge'', ''3 St.'')]"]
      p1 p0 p3 p5
    by (simp add: cell_def truthy_def or_else_def srow_def str_def cu_def)
qed

text \<open>
  C8 as stated fails: a row whose quantity column reads \<open>-5\<close> is mapped to a candidate of
  quantity \<open>-5\<close>, which is below 1.
\<close>

theorem mapAmazonRecord_quantity_counterexample:
  "quantity (mapAmazonRecord plain
      (srow [(''order-item-id'', ''A1-X''), (''quantity-purchased'', ''-5'')])) = Finite (- 5) \<and>
   \<not> (1::int) \<le> - 5"
  by (simp add: mapAmazonRecord_quantity cell_def or_str_def parseInt_or_1_def parseInt_eval
      srow_def)

section \<open>Order updates: theorems\<close>

lemma set_columns_sel:
  "rowId (set_columns u r) = rowId r"
  "orderId (set_columns u r) = incoming_value (p_orderId u) (orderId r)"
  "shippingCarrier (set_columns u r) = incoming (p_shippingCarrier u) (shippingCarrier r)"
  "trackingNumber (set_columns u r) = incoming (p_trackingNumber u) (trackingNumber r)"
  "shippingDate (set_columns u r) = incoming (p_shippingDate u) (shippingDate r)"
  "status (set_columns u r) = incoming_value (p_status u) (status r)"
  by (simp_all add: set_columns_def)

lemma updateData_of_sel:
  "p_shippingCarrier (updateData_of data current) = p_shippingCarrier data"
  "p_trackingNumber (updateData_of data current) = p_trackingNumber data"
  "p_shippingDate (updateData_of data current) = p_shippingDate data"
  "p_orderId (updateData_of data current) = p_orderId data"
  "p_status (updateData_of data current) = Some (Some (spec_status
        (incoming (p_shippingCarrier data) (shippingCarrier current))
        (incoming (p_trackingNumber data) (trackingNumber current))
        (incoming (p_shippingDate data) (shippingDate current))))"
  by (simp_all add: updateData_of_def)

lemma first_row_filter_map:
  assumes "first_row (filter (\<lambda>r. rowId r = i) rs) = Some c"
    and "\<And>r. rowId (f r) = rowId r"
  shows "first_row (filter (\<lambda>r. rowId r = i) (map (\<lambda>r. if rowId r = i then f r else r) rs))
    = Some (f c)"
  using assms(1)
proof (induction rs)
  case Nil
  then show ?case by (simp add: first_row_def)
next
  case (Cons a rs)
  then show ?case
    by (cases "rowId a = i") (simp_all add: first_row_def assms(2))
qed

lemma first_row_mem: "first_row (filter P rs) = Some c \<Longrightarrow> c \<in> set rs \<and> P c"
  by (induction rs) (auto simp: first_row_def split: if_splits)

lemma constraint_status_free:
  "constraint_violated i (data\<lparr>p_status := Some (Some x)\<rparr>) d = table_rejects i data d"
  by (simp add: table_rejects_def constraint_violated_def null_for_not_null_def)

lemma constraint_updateData:
  "constraint_violated i (updateData_of data current) d = table_rejects i data d"
  by (simp only: updateData_of_def constraint_status_free)

lemma table_rejects_status_key: "table_rejects i (data\<lparr>p_status := s\<rparr>) d = table_rejects i data d"
  by (simp add: table_rejects_def)

lemma updateOrder_found:
  assumes "first_row (filter (\<lambda>r. rowId r = i) (rows d)) = Some current"
    and "table_rejects i data d = None"
  shows "updateOrder i data d =
    (Inr (Some (set_columns (updateData_of data current) current)),
     d\<lparr>rows := map (\<lambda>r. if rowId r = i then set_columns (updateData_of data current) r else r)
       (rows d)\<rparr>)"
proof -
  have h: "first_row (filter (\<lambda>r. rowId r = i)
      (map (\<lambda>r. if rowId r = i then set_columns u r else r) (rows d))) =
      Some (set_columns u current)"
    for u
    using assms(1) by (rule first_row_filter_map) (simp add: set_columns_sel)
  show ?thesis
  proof (cases "truthy (incoming (p_shippingCarrier data) (shippingCarrier current)) \<and>
      truthy (incoming (p_trackingNumber data) (trackingNumber current)) \<and>
      truthy (incoming (p_shippingDate data) (shippingDate current))")
    case True
    show ?thesis
      unfolding updateData_of_def spec_status_def if_P [OF True]
      by (simp only: updateOrder_def assms(1) option.case Let_def if_P [OF True]
          constraint_status_free assms(2) h)
  next
    case False
    show ?thesis
      unfolding updateData_of_def spec_status_def if_not_P [OF False]
      by (simp only: updateOrder_def assms(1) option.case Let_def if_not_P [OF False]
          constraint_status_free assms(2) h)
  qed
qed

lemma updateOrder_rejected:
  assumes "first_row (filter (\<lambda>r. rowId r = i) (rows d)) = Some current"
    and "table_rejects i data d = Some e"
  shows "updateOrder i data d = (Inl e, d)"
  using assms by (simp add: updateOrder_def Let_def constraint_status_free)

lemma updateOrder_missing:
  "first_row (filter (\<lambda>r. rowId r = i) (rows d)) = None \<Longrightarrow>
   updateOrder i data d = (Inr None, d)"
  by (simp add: updateOrder_def)

lemma spec_status_iff:
  "spec_status c t s = str ''Versendet'' \<longleftrightarrow> truthy c \<and> truthy t \<and> truthy s"
  "spec_status c t s = str ''Offen'' \<longleftrightarrow> \<not> (truthy c \<and> truthy t \<and> truthy s)"
  by (simp_all add: spec_status_def str_def cu_def)

lemma updated_row_derived: "status_derived (set_columns (updateData_of data current) current)"
  by (simp add: status_derived_def set_columns_sel updateData_of_sel incoming_def
      incoming_value_def)

lemma distinct_same_id:
  "distinct (map rowId rs) \<Longrightarrow> a \<in> set rs \<Longrightarrow> b \<in> set rs \<Longrightarrow> rowId a = rowId b \<Longrightarrow> a = b"
  by (simp add: distinct_map inj_on_def)

lemma status_key_overwritten:
  "data\<lparr>p_status := s, p_status := t\<rparr> = data\<lparr>p_status := t\<rparr>"
  by simp

lemma updateOrder_ignores_status_key:
  "updateOrder i (data\<lparr>p_status := s\<rparr>) d = updateOrder i data d"
  by (simp add: updateOrder_def Let_def status_key_overwritten split: option.splits cong: if_cong)

lemma set_columns_full_derived:
  assumes "p_shippingCarrier u = Some c" and "p_trackingNumber u = Some t"
    and "p_shippingDate u = Some s"
  shows "status_derived (set_columns (updateData_of u current) r)"
  by (simp add: status_derived_def set_columns_sel updateData_of_sel incoming_def
      incoming_value_def assms)

lemma updateOrder_full_keeps:
  assumes keys: "p_shippingCarrier u = Some c" "p_trackingNumber u = Some t"
      "p_shippingDate u = Some s"
    and inv: "\<forall>r\<in>set (rows d). r \<in> S \<or> status_derived r"
  shows "\<forall>r\<in>set (rows (snd (updateOrder i u d))). r \<in> S \<or> status_derived r"
proof (cases "first_row (filter (\<lambda>r. rowId r = i) (rows d))")
  case None
  then show ?thesis
    using inv by (simp add: updateOrder_missing)
next
  case found: (Some current)
  show ?thesis
  proof (cases "table_rejects i u d")
    case None
    show ?thesis
      unfolding updateOrder_found [OF found None]
      using inv set_columns_full_derived [OF keys] by auto
  next
    case (Some e)
    show ?thesis
      unfolding updateOrder_rejected [OF found Some]
      using inv by simp
  qed
qed

lemma update_matching_keeps:
  assumes keys: "p_shippingCarrier u = Some c" "p_trackingNumber u = Some t"
      "p_shippingDate u = Some s"
  shows "\<forall>r\<in>set (rows d). r \<in> S \<or> status_derived r \<Longrightarrow>
    \<forall>r\<in>set (rows (snd (update_matching ms u (n, d)))). r \<in> S \<or> status_derived r"
proof (induction ms arbitrary: n d)
  case Nil
  then show ?case by simp
next
  case (Cons m ms)
  have k: "\<forall>r\<in>set (rows (snd (updateOrder (rowId m) u d))). r \<in> S \<or> status_derived r"
    using keys Cons.prems by (rule updateOrder_full_keeps)
  obtain res d' where run: "updateOrder (rowId m) u d = (res, d')"
    by (cases "updateOrder (rowId m) u d")
  with k have k': "\<forall>r\<in>set (rows d'). r \<in> S \<or> status_derived r"
    by simp
  show ?case
  proof (cases res)
    case (Inl e)
    with run k' show ?thesis by simp
  next
    case (Inr v)
    with run Cons.IH [OF k'] show ?thesis by simp
  qed
qed

lemma update_matching_keeps_run:
  assumes "update_matching ms u (n, d) = (res, d')"
    and "\<forall>r\<in>set (rows d). r \<in> S \<or> status_derived r"
    and "p_shippingCarrier u = Some c" and "p_trackingNumber u = Some t"
    and "p_shippingDate u = Some s"
  shows "\<forall>r\<in>set (rows d'). r \<in> S \<or> status_derived r"
  using update_matching_keeps [OF assms(3-5) assms(2), of ms n] assms(1) by simp

lemma manifest_patch_keys:
  "p_shippingCarrier (no_keys\<lparr>p_shippingCarrier := Some c, p_trackingNumber := Some t,
      p_shippingDate := Some s, p_shipper := Some sh\<rparr>) = Some c"
  "p_trackingNumber (no_keys\<lparr>p_shippingCarrier := Some c, p_trackingNumber := Some t,
      p_shippingDate := Some s, p_shipper := Some sh\<rparr>) = Some t"
  "p_shippingDate (no_keys\<lparr>p_shippingCarrier := Some c, p_trackingNumber := Some t,
      p_shippingDate := Some s, p_shipper := Some sh\<rparr>) = Some s"
  by simp_all

lemma shipping_row_keeps:
  assumes "\<forall>r\<in>set (rows (snd st)). r \<in> S \<or> status_derived r"
  shows "\<forall>r\<in>set (rows (snd (shipping_row today allOrders x st))). r \<in> S \<or> status_derived r"
proof -
  have m: "\<forall>r\<in>set (rows d'). r \<in> S \<or> status_derived r"
    if "update_matching ms (no_keys\<lparr>p_shippingCarrier := Some c, p_trackingNumber := Some t,
         p_shippingDate := Some s, p_shipper := Some sh\<rparr>) (n, snd st) = (res, d')"
    for ms c t s sh n res d'
    using that assms manifest_patch_keys by (rule update_matching_keeps_run)
  show ?thesis
    unfolding shipping_row_def Let_def
    using assms
    by (auto split: option.splits prod.splits sum.splits dest: m [THEN bspec])
qed

lemma shipping_loop_keeps:
  "\<forall>r\<in>set (rows (snd st)). r \<in> S \<or> status_derived r \<Longrightarrow>
   \<forall>r\<in>set (rows (snd (shipping_loop today allOrders xs st))). r \<in> S \<or> status_derived r"
proof (induction xs arbitrary: st)
  case Nil
  then show ?case by simp
next
  case (Cons x xs)
  have k: "\<forall>r\<in>set (rows (snd (shipping_row today allOrders x st))). r \<in> S \<or> status_derived r"
    using Cons.prems by (rule shipping_row_keeps)
  obtain res d' where run: "shipping_row today allOrders x st = (res, d')"
    by (cases "shipping_row today allOrders x st")
  with k have k': "\<forall>r\<in>set (rows (snd (rep, d'))). r \<in> S \<or> status_derived r"
    for rep :: shippingReport
    by simp
  show ?case
  proof (cases res)
    case (Inl e)
    with run k' show ?thesis by simp
  next
    case (Inr rep)
    with run Cons.IH [OF k'] show ?thesis by simp
  qed
qed

lemma importShippingRecords_keeps:
  "\<forall>r\<in>set (rows (snd (importShippingRecords today records d))).
     r \<in> set (rows d) \<or> status_derived r"
  using shipping_loop_keeps [of
      "(\<lparr>updated = 0, notFound = [], fuzzyMatched = [], ambiguous = []\<rparr>, d)"
      "set (rows d)" today "getAllOrders d" records]
  by (simp add: importShippingRecords_def Let_def)

lemma importShipping_keeps:
  "\<forall>r\<in>set (rows (snd (importShipping csv_parse today content d))).
     r \<in> set (rows d) \<or> status_derived r"
  using importShippingRecords_keeps
  by (simp add: importShipping_def split: sum.splits prod.splits)

lemma patchOrder_found:
  "updateOrder i data d = (Inr (Some upd), d') \<Longrightarrow> patchOrder i data d = (Inr upd, d')"
  by (simp add: patchOrder_def)

lemma patchOrder_rejected:
  "updateOrder i data d = (Inl e, d') \<Longrightarrow> patchOrder i data d = (Inl e, d')"
  by (simp add: patchOrder_def)

lemma status_derived_iff:
  "status_derived r \<longleftrightarrow>
     (status r = str ''Versendet'' \<longleftrightarrow>
        truthy (shippingCarrier r) \<and> truthy (trackingNumber r) \<and> truthy (shippingDate r)) \<and>
     (status r = str ''Offen'' \<longleftrightarrow>
        \<not> (truthy (shippingCarrier r) \<and> truthy (trackingNumber r) \<and> truthy (shippingDate r)))"
  by (auto simp: status_derived_def spec_status_def str_def cu_def)

lemma updateOrder_stored:
  assumes found: "first_row (filter (\<lambda>r. rowId r = i) (rows d)) = Some current"
    and ok: "table_rejects i data d = None"
    and dist: "distinct (map rowId (rows d))"
    and mem: "r \<in> set (rows (snd (updateOrder i data d)))" and i: "rowId r = i"
  shows "r = set_columns (updateData_of data current) current"
proof -
  from mem obtain r0 where r0: "r0 \<in> set (rows d)"
      and r: "r = (if rowId r0 = i then set_columns (updateData_of data current) r0 else r0)"
    unfolding updateOrder_found [OF found ok] by auto
  from r i have "rowId r0 = i"
    by (auto simp: set_columns_sel split: if_splits)
  moreover from first_row_mem [OF found] have "current \<in> set (rows d)" "rowId current = i"
    by simp_all
  ultimately have "r0 = current"
    using dist r0 distinct_same_id by metis
  with r \<open>rowId r0 = i\<close> show ?thesis by simp
qed

text \<open>
  C1. Let an update find the order (\<open>current\<close> is the row the select returns for the id).
  When the table accepts the new values (no quantity out of the 32-bit range, no
  \<^verbatim>\<open>null\<close> for a required column, no \<open>orderItemId\<close> that another row has), \<open>updateOrder\<close>
  returns the updated row and the PATCH route answers with it; the row is stored; its
  carrier, tracking number and shipping date are the incoming values laid over the
  current ones; and its status is \<open>Versendet\<close> if and only if these three merged values
  are all non-empty, and \<open>Offen\<close> if and only if they are not. With the ids of the table
  distinct, it is the only stored row of that id. When the table rejects the new values,
  \<open>updateOrder\<close> throws, the PATCH route answers with the error, and the store is the one
  before the call: the status is not recomputed. The status is recomputed by every run
  of the shipping-manifest import too: each row of the store after the import is a row
  the store had before, or its status is the one its own three shipping fields give.
\<close>

theorem update_recomputes_status:
  "(first_row (filter (\<lambda>r. rowId r = i) (rows d)) = Some current \<longrightarrow>
      (table_rejects i data d = None \<longrightarrow>
         (\<exists>upd d'. updateOrder i data d = (Inr (Some upd), d') \<and>
            patchOrder i data d = (Inr upd, d') \<and>
            upd \<in> set (rows d') \<and> rowId upd = i \<and>
            shippingCarrier upd = incoming (p_shippingCarrier data) (shippingCarrier current) \<and>
            trackingNumber upd = incoming (p_trackingNumber data) (trackingNumber current) \<and>
            shippingDate upd = incoming (p_shippingDate data) (shippingDate current) \<and>
            (status upd = str ''Versendet'' \<longleftrightarrow>
               truthy (shippingCarrier upd) \<and> truthy (trackingNumber upd) \<and>
               truthy (shippingDate upd)) \<and>
            (status upd = str ''Offen'' \<longleftrightarrow>
               \<not> (truthy (shippingCarrier upd) \<and> truthy (trackingNumber upd) \<and>
                  truthy (shippingDate upd))) \<and>
            (distinct (map rowId (rows d)) \<longrightarrow>
               (\<forall>r\<in>set (rows d'). rowId r = i \<longrightarrow> r = upd)))) \<and>
      (\<forall>e. table_rejects i data d = Some e \<longrightarrow>
         updateOrder i data d = (Inl e, d) \<and> patchOrder i data d = (Inl e, d))) \<and>
   (\<forall>r\<in>set (rows (snd (importShipping csv_parse today content d))).
      r \<in> set (rows d) \<or>
      (status r = str ''Versendet'' \<longleftrightarrow>
         truthy (shippingCarrier r) \<and> truthy (trackingNumber r) \<and> truthy (shippingDate r)) \<and>
      (status r = str ''Offen'' \<longleftrightarrow>
         \<not> (truthy (shippingCarrier r) \<and> truthy (trackingNumber r) \<and> truthy (shippingDate r))))"
proof (intro conjI impI allI)
  assume found: "first_row (filter (\<lambda>r. rowId r = i) (rows d)) = Some current"
    and ok: "table_rejects i data d = None"
  let ?upd = "set_columns (updateData_of data current) current"
  let ?d' = "d\<lparr>rows := map (\<lambda>r. if rowId r = i then set_columns (updateData_of data current) r
      else r) (rows d)\<rparr>"
  have run: "updateOrder i data d = (Inr (Some ?upd), ?d')"
    by (rule updateOrder_found [OF found ok])
  have cur: "current \<in> set (rows d)" "rowId current = i"
    using first_row_mem [OF found] by simp_all
  have mem: "?upd \<in> set (rows ?d')"
    using cur by (auto simp: image_iff intro!: bexI [of _ current])
  have der: "(status ?upd = str ''Versendet'' \<longleftrightarrow>
            truthy (shippingCarrier ?upd) \<and> truthy (trackingNumber ?upd) \<and>
            truthy (shippingDate ?upd)) \<and>
         (status ?upd = str ''Offen'' \<longleftrightarrow>
            \<not> (truthy (shippingCarrier ?upd) \<and> truthy (trackingNumber ?upd) \<and>
               truthy (shippingDate ?upd)))"
    using updated_row_derived [of data current] by (simp only: status_derived_iff)
  have uniq: "distinct (map rowId (rows d)) \<longrightarrow> (\<forall>r\<in>set (rows ?d'). rowId r = i \<longrightarrow> r = ?upd)"
  proof (intro impI ballI)
    fix r
    assume dist: "distinct (map rowId (rows d))" and r: "r \<in> set (rows ?d')" and i: "rowId r = i"
    from r have "r \<in> set (rows (snd (updateOrder i data d)))"
      by (simp only: run snd_conv)
    with found ok dist show "r = ?upd"
      using i by (rule updateOrder_stored)
  qed
  show "\<exists>upd d'. updateOrder i data d = (Inr (Some upd), d') \<and>
         patchOrder i data d = (Inr upd, d') \<and>
         upd \<in> set (rows d') \<and> rowId upd = i \<and>
         shippingCarrier upd = incoming (p_shippingCarrier data) (shippingCarrier current) \<and>
         trackingNumber upd = incoming (p_trackingNumber data) (trackingNumber current) \<and>
         shippingDate upd = incoming (p_shippingDate data) (shippingDate current) \<and>
         (status upd = str ''Versendet'' \<longleftrightarrow>
            truthy (shippingCarrier upd) \<and> truthy (trackingNumber upd) \<and>
            truthy (shippingDate upd)) \<and>
         (status upd = str ''Offen'' \<longleftrightarrow>
            \<not> (truthy (shippingCarrier upd) \<and> truthy (trackingNumber upd) \<and>
               truthy (shippingDate upd))) \<and>
         (distinct (map rowId (rows d)) \<longrightarrow> (\<forall>r\<in>set (rows d'). rowId r = i \<longrightarrow> r = upd))"
    apply (rule exI [of _ ?upd], rule exI [of _ ?d'])
    apply (intro conjI)
             apply (rule run)
            apply (rule patchOrder_found [OF run])
           apply (rule mem)
          apply (simp add: set_columns_sel cur)
         apply (simp add: set_columns_sel updateData_of_sel)
        apply (simp add: set_columns_sel updateData_of_sel)
       apply (simp add: set_columns_sel updateData_of_sel)
      apply (rule der [THEN conjunct1])
     apply (rule der [THEN conjunct2])
    apply (rule uniq)
    done
next
  fix e
  assume found: "first_row (filter (\<lambda>r. rowId r = i) (rows d)) = Some current"
    and rej: "table_rejects i data d = Some e"
  show thrown: "updateOrder i data d = (Inl e, d)"
    by (rule updateOrder_rejected [OF found rej])
  show "patchOrder i data d = (Inl e, d)"
    by (rule patchOrder_rejected [OF thrown])
next
  show "\<forall>r\<in>set (rows (snd (importShipping csv_parse today content d))).
      r \<in> set (rows d) \<or>
      (status r = str ''Versendet'' \<longleftrightarrow>
         truthy (shippingCarrier r) \<and> truthy (trackingNumber r) \<and> truthy (shippingDate r)) \<and>
      (status r = str ''Offen'' \<longleftrightarrow>
         \<not> (truthy (shippingCarrier r) \<and> truthy (trackingNumber r) \<and> truthy (shippingDate r)))"
    using importShipping_keeps [of csv_parse today content d]
    by (simp only: status_derived_iff)
qed

text \<open>
  C10. A \<open>status\<close> key of the payload has no effect: \<open>updateOrder\<close> and the PATCH route
  return the same result and leave the same store whatever the key holds (a string,
  \<^verbatim>\<open>null\<close>, or no key at all). For an existing order whose new values the table accepts,
  the stored status is the one derived from the merged carrier, tracking number and
  shipping date; when the table rejects them, the update throws and the store, with the
  status it holds, is the one before the call.
\<close>

theorem status_key_ignored:
  "updateOrder i (data\<lparr>p_status := s\<rparr>) d = updateOrder i data d \<and>
   patchOrder i (data\<lparr>p_status := s\<rparr>) d = patchOrder i data d \<and>
   (first_row (filter (\<lambda>r. rowId r = i) (rows d)) = Some current \<longrightarrow>
      (table_rejects i data d = None \<longrightarrow>
         (\<exists>upd d'. updateOrder i (data\<lparr>p_status := s\<rparr>) d = (Inr (Some upd), d') \<and>
            upd \<in> set (rows d') \<and>
            status upd =
              spec_status (incoming (p_shippingCarrier data) (shippingCarrier current))
                (incoming (p_trackingNumber data) (trackingNumber current))
                (incoming (p_shippingDate data) (shippingDate current)))) \<and>
      (\<forall>e. table_rejects i data d = Some e \<longrightarrow>
         updateOrder i (data\<lparr>p_status := s\<rparr>) d = (Inl e, d)))"
proof (intro conjI impI allI)
  show eq: "updateOrder i (data\<lparr>p_status := s\<rparr>) d = updateOrder i data d"
    by (rule updateOrder_ignores_status_key)
  then show "patchOrder i (data\<lparr>p_status := s\<rparr>) d = patchOrder i data d"
    by (simp add: patchOrder_def)
next
  assume found: "first_row (filter (\<lambda>r. rowId r = i) (rows d)) = Some current"
    and ok: "table_rejects i data d = None"
  have cur: "current \<in> set (rows d)" "rowId current = i"
    using first_row_mem [OF found] by simp_all
  have mem: "set_columns (updateData_of data current) current \<in>
      (\<lambda>r. if rowId r = i then set_columns (updateData_of data current) r else r) ` set (rows d)"
    using cur by (auto simp: image_iff intro!: bexI [of _ current])
  show "\<exists>upd d'. updateOrder i (data\<lparr>p_status := s\<rparr>) d = (Inr (Some upd), d') \<and>
         upd \<in> set (rows d') \<and>
         status upd =
           spec_status (incoming (p_shippingCarrier data) (shippingCarrier current))
             (incoming (p_trackingNumber data) (trackingNumber current))
             (incoming (p_shippingDate data) (shippingDate current))"
    unfolding updateOrder_ignores_status_key updateOrder_found [OF found ok]
    using mem by (simp add: set_columns_sel updateData_of_sel incoming_value_def)
next
  fix e
  assume found: "first_row (filter (\<lambda>r. rowId r = i) (rows d)) = Some current"
    and rej: "table_rejects i data d = Some e"
  show "updateOrder i (data\<lparr>p_status := s\<rparr>) d = (Inl e, d)"
    unfolding updateOrder_ignores_status_key
    by (rule updateOrder_rejected [OF found rej])
qed

lemma shop_first: "first_row (filter (\<lambda>r. rowId r = 1) (rows shop)) = Some jane"
  by code_simp

lemma shop_distinct: "distinct (map rowId (rows shop))"
  by code_simp

lemma shop_manifest_O1:
  "rows (snd (importShipping (fixed_rows [manifest_O1]) (str ''2024-01-02'') [] shop)) =
     [jane_shipped, john]"
  by code_simp

lemma shop_accepts:
  "table_rejects 1 ship_body shop = None"
  "table_rejects 1 carrier_body shop = None"
  "table_rejects 1 no_keys shop = None"
  by code_simp+

lemma shop_rejects:
  "table_rejects 1 taken_id_body shop = Some UniqueViolation"
  "table_rejects 1 (ship_body\<lparr>p_quantity := Some (Some (Finite 3000000000))\<rparr>) shop =
     Some IntegerOutOfRange"
  by code_simp+

lemma jane_open: "status jane = str ''Offen''" "rowId jane = 1"
  by (simp_all add: jane_def)

theorem update_recomputes_status_witness:
  "first_row (filter (\<lambda>r. rowId r = 1) (rows shop)) = Some jane \<and>
   distinct (map rowId (rows shop)) \<and>
   table_rejects 1 ship_body shop = None \<and>
   (\<exists>upd. fst (updateOrder 1 ship_body shop) = Inr (Some upd) \<and>
      status upd = str ''Versendet'') \<and>
   jane \<notin> set (rows (snd (updateOrder 1 ship_body shop))) \<and>
   table_rejects 1 carrier_body shop = None \<and>
   (\<exists>upd. fst (updateOrder 1 carrier_body shop) = Inr (Some upd) \<and>
      status upd = str ''Offen'') \<and>
   table_rejects 1 taken_id_body shop = Some UniqueViolation \<and>
   patchOrder 1 taken_id_body shop = (Inl UniqueViolation, shop) \<and>
   jane_shipped \<in> set (rows (snd (importShipping (fixed_rows [manifest_O1])
      (str ''2024-01-02'') [] shop))) \<and>
   jane_shipped \<notin> set (rows shop) \<and>
   status jane_shipped = str ''Versendet''"
proof -
  from update_recomputes_status [of 1 shop jane ship_body, THEN conjunct1, THEN mp,
      OF shop_first, THEN conjunct1, THEN mp, OF shop_accepts(1)]
  obtain upd d' where u: "updateOrder 1 ship_body shop = (Inr (Some upd), d')"
    and c: "shippingCarrier upd = incoming (p_shippingCarrier ship_body) (shippingCarrier jane)"
    and t: "trackingNumber upd = incoming (p_trackingNumber ship_body) (trackingNumber jane)"
    and s: "shippingDate upd = incoming (p_shippingDate ship_body) (shippingDate jane)"
    and v: "status upd = str ''Versendet'' \<longleftrightarrow>
      truthy (shippingCarrier upd) \<and> truthy (trackingNumber upd) \<and> truthy (shippingDate upd)"
    and only: "distinct (map rowId (rows shop)) \<longrightarrow>
      (\<forall>r\<in>set (rows d'). rowId r = 1 \<longrightarrow> r = upd)"
    by blast
  have sent: "status upd = str ''Versendet''"
    using c t s v by (simp add: ship_body_def no_keys_def incoming_def truthy_def str_def)
  have shipped: "\<exists>upd. fst (updateOrder 1 ship_body shop) = Inr (Some upd) \<and>
      status upd = str ''Versendet''"
    using u sent by simp
  have replaced: "jane \<notin> set (rows (snd (updateOrder 1 ship_body shop)))"
  proof
    assume "jane \<in> set (rows (snd (updateOrder 1 ship_body shop)))"
    with u have "jane \<in> set (rows d')"
      by simp
    then have "jane = upd"
      using only shop_distinct jane_open(2) by blast
    with sent show False
      by (simp add: jane_open(1) str_def cu_def)
  qed
  from update_recomputes_status [of 1 shop jane carrier_body, THEN conjunct1, THEN mp,
      OF shop_first, THEN conjunct1, THEN mp, OF shop_accepts(2)]
  obtain upd2 d2 where u2: "updateOrder 1 carrier_body shop = (Inr (Some upd2), d2)"
    and t2: "trackingNumber upd2 = incoming (p_trackingNumber carrier_body) (trackingNumber jane)"
    and o2: "status upd2 = str ''Offen'' \<longleftrightarrow>
      \<not> (truthy (shippingCarrier upd2) \<and> truthy (trackingNumber upd2) \<and>
         truthy (shippingDate upd2))"
    by blast
  have "status upd2 = str ''Offen''"
    using t2 o2 by (simp add: carrier_body_def no_keys_def incoming_def truthy_def jane_def)
  then have opened: "\<exists>upd. fst (updateOrder 1 carrier_body shop) = Inr (Some upd) \<and>
      status upd = str ''Offen''"
    using u2 by simp
  have thrown: "patchOrder 1 taken_id_body shop = (Inl UniqueViolation, shop)"
    by (rule update_recomputes_status [of 1 shop jane taken_id_body, THEN conjunct1, THEN mp,
      OF shop_first, THEN conjunct2, THEN spec, THEN mp, OF shop_rejects(1), THEN conjunct2])
  have mem: "jane_shipped \<in> set (rows (snd (importShipping (fixed_rows [manifest_O1])
      (str ''2024-01-02'') [] shop)))"
    by (simp add: shop_manifest_O1)
  have new: "jane_shipped \<notin> set (rows shop)"
    by code_simp
  from update_recomputes_status [of 1 shop jane ship_body "fixed_rows [manifest_O1]"
      "(str ''2024-01-02'')" "[]", THEN conjunct2, THEN bspec, OF mem] new
  have "status jane_shipped = str ''Versendet'' \<longleftrightarrow>
      truthy (shippingCarrier jane_shipped) \<and> truthy (trackingNumber jane_shipped) \<and>
      truthy (shippingDate jane_shipped)"
    by simp
  then have "status jane_shipped = str ''Versendet''"
    by (simp add: jane_shipped_def truthy_def str_def)
  with shop_first shop_distinct shop_accepts(1,2) shop_rejects(1) shipped replaced opened
    thrown mem new
  show ?thesis
    by (simp only: simp_thms)
qed

text \<open>
  C1 as stated fails: the order \<open>jane\<close> exists and is \<open>Offen\<close>; the update sets a carrier, a
  tracking number and a shipping date, so that the three merged values are all
  non-empty, together with the \<open>orderItemId\<close> of the other order. The table rejects it,
  the PATCH route answers with the error, and the stored row is still \<open>jane\<close> with the
  status \<open>Offen\<close>.
\<close>

theorem rejected_update_counterexample:
  "getOrderByItemId (str ''A1-X'') shop = Some jane \<and> rowId jane = 1 \<and>
   truthy (incoming (p_shippingCarrier taken_id_body) (shippingCarrier jane)) \<and>
   truthy (incoming (p_trackingNumber taken_id_body) (trackingNumber jane)) \<and>
   truthy (incoming (p_shippingDate taken_id_body) (shippingDate jane)) \<and>
   patchOrder 1 taken_id_body shop = (Inl UniqueViolation, shop) \<and>
   getOrderByItemId (str ''A1-X'') (snd (patchOrder 1 taken_id_body shop)) = Some jane \<and>
   status jane = str ''Offen''"
  by code_simp

theorem status_key_ignored_witness:
  "first_row (filter (\<lambda>r. rowId r = 1) (rows shop)) = Some jane \<and>
   p_status status_body = Some (Some (str ''Versendet'')) \<and>
   table_rejects 1 no_keys shop = None \<and>
   (\<exists>upd. fst (updateOrder 1 status_body shop) = Inr (Some upd) \<and>
      status upd = str ''Offen'') \<and>
   table_rejects 1 (ship_body\<lparr>p_quantity := Some (Some (Finite 3000000000))\<rparr>) shop =
     Some IntegerOutOfRange \<and>
   updateOrder 1 big_quantity_body shop = (Inl IntegerOutOfRange, shop)"
proof -
  from status_key_ignored [where i = 1 and data = no_keys
      and s = "Some (Some (str ''Versendet''))" and d = shop and current = jane,
      THEN conjunct2, THEN conjunct2, THEN mp, OF shop_first, THEN conjunct1, THEN mp,
      OF shop_accepts(3)]
  obtain upd d' where
    u: "updateOrder 1 (no_keys\<lparr>p_status := Some (Some (str ''Versendet''))\<rparr>) shop =
      (Inr (Some upd), d')"
    and s: "status upd =
      spec_status (incoming (p_shippingCarrier no_keys) (shippingCarrier jane))
        (incoming (p_trackingNumber no_keys) (trackingNumber jane))
        (incoming (p_shippingDate no_keys) (shippingDate jane))"
    by blast
  from s have "status upd = str ''Offen''"
    by (simp add: no_keys_def incoming_def jane_def spec_status_def truthy_def)
  with u have a: "\<exists>upd. fst (updateOrder 1 status_body shop) = Inr (Some upd) \<and>
      status upd = str ''Offen''"
    by (simp add: status_body_def)
  have "updateOrder 1 (ship_body\<lparr>p_quantity := Some (Some (Finite 3000000000)),
      p_status := Some (Some (str ''Offen''))\<rparr>) shop = (Inl IntegerOutOfRange, shop)"
    by (rule status_key_ignored [where i = 1
      and data = "ship_body\<lparr>p_quantity := Some (Some (Finite 3000000000))\<rparr>"
      and s = "Some (Some (str ''Offen''))" and d = shop and current = jane,
      THEN conjunct2, THEN conjunct2, THEN mp, OF shop_first, THEN conjunct2, THEN spec,
      THEN mp, OF shop_rejects(2)])
  then have b: "updateOrder 1 big_quantity_body shop = (Inl IntegerOutOfRange, shop)"
    by (simp only: big_quantity_body_def)
  have c: "p_status status_body = Some (Some (str ''Versendet''))"
    by (simp add: status_body_def)
  from shop_first c shop_accepts(3) a shop_rejects(2) b show ?thesis
    by (simp only: simp_thms)
qed

text \<open>
  C10 as stated fails: the order \<open>jane\<close> exists and is \<open>Offen\<close>; the payload holds a carrier, a
  tracking number and a shipping date, so that the derived status is \<open>Versendet\<close>, and a
  quantity above the 32-bit range. The table rejects it, and the stored status after the
  update is still \<open>Offen\<close>, not the derived one.
\<close>

theorem rejected_status_counterexample:
  "getOrderByItemId (str ''A1-X'') shop = Some jane \<and> rowId jane = 1 \<and>
   spec_status (incoming (p_shippingCarrier big_quantity_body) (shippingCarrier jane))
     (incoming (p_trackingNumber big_quantity_body) (trackingNumber jane))
     (incoming (p_shippingDate big_quantity_body) (shippingDate jane)) = str ''Versendet'' \<and>
   patchOrder 1 big_quantity_body shop = (Inl IntegerOutOfRange, shop) \<and>
   getOrderByItemId (str ''A1-X'') (snd (patchOrder 1 big_quantity_body shop)) = Some jane \<and>
   status jane = str ''Offen''"
  by code_simp

section \<open>Fuzzy reconciler: theorems\<close>

lemma slice_last_length: "length (slice_last n s) = min n (length s)"
  by (simp add: slice_last_def)

lemma endsWith_slice:
  assumes "6 \<le> length a"
  shows "endsWith b (slice_last 6 a) \<longleftrightarrow> 6 \<le> length b \<and> slice_last 6 b = slice_last 6 a"
  using assms by (auto simp: endsWith_def slice_last_def)

lemma phoneMatch_iff:
  "phoneMatch csvPhone r \<longleftrightarrow>
     6 \<le> length csvPhone \<and> 6 \<le> length (strip_phone (or_str (phone r) [])) \<and>
     slice_last 6 (strip_phone (or_str (phone r) [])) = slice_last 6 csvPhone"
proof (cases "6 \<le> length csvPhone")
  case True
  then show ?thesis
    by (auto simp: phoneMatch_def Let_def endsWith_slice slice_last_length)
next
  case False
  then show ?thesis
    by (simp add: phoneMatch_def Let_def slice_last_length)
qed

lemma common_suffix_six:
  assumes "6 \<le> length a" and "slice_last 6 b = slice_last 6 a"
  shows "6 \<le> length (longest_common_prefix (rev a) (rev b))"
proof -
  have "take 6 (rev a) = rev (slice_last 6 a)" "take 6 (rev b) = rev (slice_last 6 b)"
    by (simp_all add: slice_last_def take_rev)
  with assms(2) have eq: "take 6 (rev a) = take 6 (rev b)" by simp
  have "prefix (take 6 (rev a)) (rev a)"
    by (rule take_is_prefix)
  moreover have "prefix (take 6 (rev a)) (rev b)"
    unfolding eq by (rule take_is_prefix)
  ultimately have "prefix (take 6 (rev a)) (longest_common_prefix (rev a) (rev b))"
    by (rule longest_common_prefix_max_prefix)
  then have "length (take 6 (rev a)) \<le> length (longest_common_prefix (rev a) (rev b))"
    by (rule prefix_length_le)
  with assms(1) show ?thesis by simp
qed

lemma filter_dropWhile_disjoint:
  "(\<And>c. P c \<Longrightarrow> \<not> Q c) \<Longrightarrow> filter Q (dropWhile P xs) = filter Q xs"
  by (induction xs) auto

lemma strip_phone_trim: "strip_phone (trim s) = strip_phone s"
proof -
  let ?Q = "\<lambda>c. \<not> (js_space c \<or> c = cu CHR ''-'' \<or> c = cu CHR ''+'')"
  have "filter ?Q (rev (dropWhile js_space (rev (dropWhile js_space s)))) =
      rev (filter ?Q (dropWhile js_space (rev (dropWhile js_space s))))"
    by (simp add: rev_filter)
  also have "\<dots> = rev (filter ?Q (rev (dropWhile js_space s)))"
    by (subst filter_dropWhile_disjoint) simp_all
  also have "\<dots> = filter ?Q (dropWhile js_space s)"
    by (simp add: rev_filter)
  also have "\<dots> = filter ?Q s"
    by (subst filter_dropWhile_disjoint) simp_all
  finally show ?thesis
    by (simp add: strip_phone_def trim_def)
qed

text \<open>
  C4. The phone predicate of the candidate filter, on the manifest's \<open>Tel\<close> cell and a
  stored order. It holds if and only if the manifest phone, with white space, hyphens and
  plus signs stripped, has at least 6 code units, the order's stripped phone has at least
  6 too, and the last 6 code units of the two are the same. So when the longest suffix
  the two stripped numbers share has 5 code units or fewer, the predicate does not hold.
  The code counts and compares the code units left after stripping, whatever they are; it
  does not test that they are digits.
\<close>

theorem phoneMatch_needs_six:
  "(phoneMatch (strip_phone (trim tel)) r \<longleftrightarrow>
      6 \<le> length (strip_phone tel) \<and> 6 \<le> length (strip_phone (or_str (phone r) [])) \<and>
      slice_last 6 (strip_phone tel) = slice_last 6 (strip_phone (or_str (phone r) []))) \<and>
   (length (longest_common_prefix (rev (strip_phone tel))
        (rev (strip_phone (or_str (phone r) [])))) \<le> 5 \<longrightarrow>
      \<not> phoneMatch (strip_phone (trim tel)) r)"
proof (rule conjI)
  show "phoneMatch (strip_phone (trim tel)) r \<longleftrightarrow>
      6 \<le> length (strip_phone tel) \<and> 6 \<le> length (strip_phone (or_str (phone r) [])) \<and>
      slice_last 6 (strip_phone tel) = slice_last 6 (strip_phone (or_str (phone r) []))"
    by (auto simp: phoneMatch_iff strip_phone_trim)
next
  show "length (longest_common_prefix (rev (strip_phone tel))
        (rev (strip_phone (or_str (phone r) [])))) \<le> 5 \<longrightarrow>
      \<not> phoneMatch (strip_phone (trim tel)) r"
  proof (rule impI)
    assume short: "length (longest_common_prefix (rev (strip_phone tel))
        (rev (strip_phone (or_str (phone r) [])))) \<le> 5"
    show "\<not> phoneMatch (strip_phone (trim tel)) r"
    proof
      assume "phoneMatch (strip_phone (trim tel)) r"
      then have "6 \<le> length (strip_phone tel)"
        and "slice_last 6 (strip_phone (or_str (phone r) [])) = slice_last 6 (strip_phone tel)"
        by (simp_all add: phoneMatch_iff strip_phone_trim)
      then have "6 \<le> length (longest_common_prefix (rev (strip_phone tel))
          (rev (strip_phone (or_str (phone r) []))))"
        by (rule common_suffix_six)
      with short show False by simp
    qed
  qed
qed

theorem phoneMatch_needs_six_witness:
  "phoneMatch (strip_phone (trim (str ''0170 123-4567''))) jane \<and>
   slice_last 6 (strip_phone (str ''0170 123-4567'')) = str ''234567'' \<and>
   slice_last 6 (strip_phone (or_str (phone jane) [])) = str ''234567'' \<and>
   longest_common_prefix (rev (strip_phone (str ''0170 993-4567'')))
     (rev (strip_phone (or_str (phone jane) []))) = str ''76543'' \<and>
   \<not> phoneMatch (strip_phone (trim (str ''0170 993-4567''))) jane"
proof -
  have m: "phoneMatch (strip_phone (trim (str ''0170 123-4567''))) jane"
    by code_simp
  have s: "slice_last 6 (strip_phone (str ''0170 123-4567'')) = str ''234567''"
    by code_simp
  have l: "longest_common_prefix (rev (strip_phone (str ''0170 993-4567'')))
     (rev (strip_phone (or_str (phone jane) []))) = str ''76543''"
    by code_simp
  have five: "length (str ''76543'') \<le> 5"
    by (simp add: str_def)
  from phoneMatch_needs_six [of "str ''0170 123-4567''" jane, THEN conjunct1] m s
  have "slice_last 6 (strip_phone (or_str (phone jane) [])) = str ''234567''"
    by simp
  moreover from phoneMatch_needs_six [of "str ''0170 993-4567''" jane, THEN conjunct2] l five
  have "\<not> phoneMatch (strip_phone (trim (str ''0170 993-4567''))) jane"
    by simp
  ultimately show ?thesis
    using m s l by (simp only: simp_thms)
qed

text \<open>
  C4 as stated fails, for the code does not look at digits. The manifest phone
  \<open>0171/34567\<close> and the order phone \<open>0170/34567\<close> match, on the last 6 code units
  \<open>/34567\<close>, though their last 6 digits differ and they share 5 trailing digits only. The
  manifest phone \<open>/12345\<close> has 5 digits and matches the order phone \<open>99/12345\<close>.
\<close>

theorem slash_phone_counterexample:
  "phone slash_order = Some (str ''0170/34567'') \<and>
   phoneMatch (strip_phone (trim (str ''0171/34567''))) slash_order \<and>
   slice_last 6 (filter is_digit (strip_phone (str ''0171/34567''))) = str ''134567'' \<and>
   slice_last 6 (filter is_digit (strip_phone (str ''0170/34567''))) = str ''034567'' \<and>
   phone long_slash_order = Some (str ''99/12345'') \<and>
   phoneMatch (strip_phone (trim (str ''/12345''))) long_slash_order \<and>
   length (filter is_digit (strip_phone (str ''/12345''))) = 5"
  by code_simp

section \<open>Shipping-manifest import: theorems\<close>

lemma resolve_city_only:
  assumes "getOrdersByOrderId referenz d = []"
    and "\<forall>r\<in>set allOrders. \<not> nameMatch csvName r \<and> \<not> phoneMatch csvPhone r"
  shows "resolve allOrders d referenz csvName csvPhone csvOrt = Some ([], [])"
proof -
  have "filter (is_candidate csvName csvPhone csvOrt) allOrders = []"
    using assms(2) by (auto simp: filter_empty_conv is_candidate_def)
  then show ?thesis
    using assms(1) by (simp add: resolve_def Let_def)
qed

text \<open>
  C2, as the code has it. A manifest row with a non-empty reference that no stored order
  has as its \<open>orderId\<close>, and whose name and phone hints match no order of the store, so
  that it matches orders on the city at most (two orders of the same city or more). In
  any state of the loop, the turn for this row appends the reference to \<open>notFound\<close> and
  changes nothing else: \<open>ambiguous\<close>, \<open>fuzzyMatched\<close> and the \<open>updated\<close> count stay as
  they are, and so does the store. An order enters the candidate list only with two of
  the three predicates, so a match on the city alone yields no candidate.
\<close>

theorem city_only_is_not_found:
  assumes "trim (or_str (cell x (str ''Referenz'')) []) \<noteq> []"
    and "getOrdersByOrderId (trim (or_str (cell x (str ''Referenz'')) [])) (snd st) = []"
    and "\<forall>r\<in>set allOrders.
           \<not> nameMatch (toLowerCase (trim (or_str (cell x (str ''Name'')) []))) r \<and>
           \<not> phoneMatch (strip_phone (trim (or_str (cell x (str ''Tel'')) []))) r"
  shows "shipping_row today allOrders x st =
     (Inr ((fst st)\<lparr>notFound :=
        notFound (fst st) @ [trim (or_str (cell x (str ''Referenz'')) [])]\<rparr>),
      snd st)"
  using assms(1) resolve_city_only [OF assms(2) assms(3)]
  by (simp add: shipping_row_def Let_def)

theorem city_only_is_not_found_witness:
  "trim (or_str (cell manifest_city (str ''Referenz'')) []) = str ''X-9'' \<and>
   getOrdersByOrderId (str ''X-9'') shop = [] \<and>
   cityMatch (toLowerCase (trim (or_str (cell manifest_city (str ''Ort'')) []))) jane \<and>
   cityMatch (toLowerCase (trim (or_str (cell manifest_city (str ''Ort'')) []))) john \<and>
   shipping_row (str ''2024-01-02'') (rows shop) manifest_city (start_report, shop) =
     (Inr \<lparr>updated = 0, notFound = [str ''X-9''], fuzzyMatched = [], ambiguous = []\<rparr>, shop)"
proof -
  have ref: "trim (or_str (cell manifest_city (str ''Referenz'')) []) = str ''X-9''"
    by code_simp
  have exact: "getOrdersByOrderId (str ''X-9'') shop = []"
    by code_simp
  have city: "cityMatch (toLowerCase (trim (or_str (cell manifest_city (str ''Ort'')) []))) jane"
    "cityMatch (toLowerCase (trim (or_str (cell manifest_city (str ''Ort'')) []))) john"
    by code_simp+
  have no: "\<forall>r\<in>set (rows shop).
      \<not> nameMatch (toLowerCase (trim (or_str (cell manifest_city (str ''Name'')) []))) r \<and>
      \<not> phoneMatch (strip_phone (trim (or_str (cell manifest_city (str ''Tel'')) []))) r"
    by code_simp
  have ne: "str ''X-9'' \<noteq> []"
    by (simp add: str_def)
  from city_only_is_not_found [of manifest_city "(start_report, shop)" "rows shop"
      "str ''2024-01-02''"] ref exact no ne
  have "shipping_row (str ''2024-01-02'') (rows shop) manifest_city (start_report, shop) =
     (Inr (start_report\<lparr>notFound := notFound start_report @ [str ''X-9'']\<rparr>), shop)"
    by simp
  then have "shipping_row (str ''2024-01-02'') (rows shop) manifest_city (start_report, shop) =
     (Inr \<lparr>updated = 0, notFound = [str ''X-9''], fuzzyMatched = [], ambiguous = []\<rparr>, shop)"
    by (simp add: start_report_def)
  with ref exact city show ?thesis
    by (simp only: simp_thms)
qed

text \<open>
  C2 as stated fails: the store holds two orders of the same city, the manifest row
  matches both on the city and neither on name or phone, and its reference ends in
  \<open>notFound\<close>; \<open>ambiguous\<close> stays empty.
\<close>

theorem city_only_counterexample:
  "city jane = city john \<and>
   cityMatch (str ''berlin'') jane \<and> cityMatch (str ''berlin'') john \<and>
   \<not> nameMatch (str ''max muster'') jane \<and> \<not> nameMatch (str ''max muster'') john \<and>
   \<not> phoneMatch (str ''0151000111'') jane \<and> \<not> phoneMatch (str ''0151000111'') john \<and>
   importShipping (fixed_rows [manifest_city]) (str ''2024-01-02'') [] shop =
     (Inr \<lparr>updated = 0, notFound = [str ''X-9''], fuzzyMatched = [], ambiguous = []\<rparr>, shop)"
  by code_simp


















section \<open>Import orchestrator: theorems\<close>











end
